theory Spec2Isabelle
  imports Complex_Main
begin

section \<open>Common values\<close>

text \<open>
  Go's \<open>error\<close> is an interface value that may be \<open>nil\<close>: it is an
  \<open>error option\<close> here, \<open>None\<close> for \<open>nil\<close>. The code only ever asks one
  question of an error, \<open>k8serrors.IsNotFound\<close>, so a non-nil error is either the
  typed not-found error of the API machinery or any other failure; both carry their
  message. \<open>IsNotFound\<close> is false of \<open>nil\<close>.
\<close>

datatype error = NotFound string | Failure string

fun errorString :: "error \<Rightarrow> string" where
  "errorString (NotFound msg) = msg"
| "errorString (Failure msg) = msg"

definition IsNotFound :: "error option \<Rightarrow> bool" where
  "IsNotFound err = (case err of Some (NotFound _) \<Rightarrow> True | _ \<Rightarrow> False)"

text \<open>
  A Go \<open>map[string]string\<close> is a finite map that may also be \<open>nil\<close>. Reading and
  \<open>delete\<close> are defined on a nil map (nothing is found, nothing happens); only a
  write to a nil map panics, and the code below always allocates before it writes.
\<close>

type_synonym gomap = "(string \<rightharpoonup> string) option"

definition mapLookup :: "gomap \<Rightarrow> string \<Rightarrow> string option" where
  "mapLookup m k = (case m of None \<Rightarrow> None | Some f \<Rightarrow> f k)"

definition mapDelete :: "gomap \<Rightarrow> string \<Rightarrow> gomap" where
  "mapDelete m k = (case m of None \<Rightarrow> None | Some f \<Rightarrow> Some (f(k := None)))"

section \<open>Audit-log extension of a Shoot (pkg/gardener/shoot/extender/auditlogs)\<close>

definition auditlogExtensionType :: string where
  "auditlogExtensionType = ''shoot-auditlog-service''"

definition auditlogReferenceName :: string where
  "auditlogReferenceName = ''auditlog-credentials''"

record AuditLogData =
  TenantID :: string
  ServiceURL :: string
  SecretName :: string

text \<open>\<open>AuditlogExtensionConfig\<close>, with the two fields of the inlined \<open>TypeMeta\<close>.\<close>

record AuditlogExtensionConfig =
  cfgKind :: string
  cfgAPIVersion :: string
  cfgType :: string
  cfgTenantID :: string
  cfgServiceURL :: string
  cfgSecretReferenceName :: string

text \<open>
  Gardener's \<open>Extension\<close> (type, optional raw provider configuration, optional
  \<open>Disabled\<close> flag) and the part of a \<open>Shoot\<close> that the operation reads and writes,
  \<open>s.Spec.Extensions\<close>. Every other field of the Shoot and of its Spec lives in the
  \<open>more\<close> part of the two records, so that the functions below are defined on every Shoot.
\<close>

record RawExtension =
  Raw :: string

record Extension =
  Type :: string
  ProviderConfig :: "RawExtension option"
  Disabled :: "bool option"

record ShootSpec =
  Extensions :: "Extension list"

record 'sp Shoot =
  Spec :: "'sp ShootSpec_scheme"

text \<open>
  \<open>slices.IndexFunc\<close>: the first index whose element satisfies \<open>f\<close>, or \<open>-1\<close>.
  The loop \<open>for i := range s\<close> is the recursion on the rest of the slice, with the
  running index.
\<close>

fun IndexFunc_from :: "nat \<Rightarrow> 'a list \<Rightarrow> ('a \<Rightarrow> bool) \<Rightarrow> int" where
  "IndexFunc_from i [] f = - 1"
| "IndexFunc_from i (x # xs) f = (if f x then int i else IndexFunc_from (Suc i) xs f)"

definition IndexFunc :: "'a list \<Rightarrow> ('a \<Rightarrow> bool) \<Rightarrow> int" where
  "IndexFunc s f = IndexFunc_from 0 s f"

text \<open>The configuration value that \<open>oSetExtension\<close> builds from the audit-log data.\<close>

definition auditlogConfig :: "AuditLogData \<Rightarrow> AuditlogExtensionConfig" where
  "auditlogConfig d =
     \<lparr> cfgKind = ''AuditlogConfig'',
       cfgAPIVersion = ''service.auditlog.extensions.gardener.cloud/v1alpha1'',
       cfgType = ''standard'',
       cfgTenantID = TenantID d,
       cfgServiceURL = ServiceURL d,
       cfgSecretReferenceName = auditlogReferenceName \<rparr>"

text \<open>The extension entry carrying the encoded configuration.\<close>

definition auditlogExtension :: "string \<Rightarrow> Extension" where
  "auditlogExtension buffer =
     \<lparr> Type = auditlogExtensionType,
       ProviderConfig = Some \<lparr> Raw = buffer \<rparr>,
       Disabled = None \<rparr>"

definition setExtensions :: "Extension list \<Rightarrow> ('sp, 'm) Shoot_scheme \<Rightarrow> ('sp, 'm) Shoot_scheme" where
  "setExtensions es s = s\<lparr> Spec := (Spec s)\<lparr> Extensions := es \<rparr> \<rparr>"

text \<open>
  \<open>oSetExtension\<close>. The JSON encoder of the API machinery is a library: it is the
  parameter \<open>jsonEncode\<close>, which returns the encoded bytes or an error. On an encoding
  error the operation returns the error and has not touched the Shoot.
\<close>

definition oSetExtension ::
  "(AuditlogExtensionConfig \<Rightarrow> error + string) \<Rightarrow> AuditLogData \<Rightarrow>
   ('sp, 'm) Shoot_scheme \<Rightarrow> error + ('sp, 'm) Shoot_scheme" where
  "oSetExtension jsonEncode d s =
     (let cfg = auditlogConfig d in
      case jsonEncode cfg of
        Inl err \<Rightarrow> Inl err
      | Inr buffer \<Rightarrow>
          (let extension = auditlogExtension buffer;
               index = IndexFunc (Extensions (Spec s)) (\<lambda>e. Type e = auditlogExtensionType)
           in if index = - 1
              then Inr (setExtensions (Extensions (Spec s) @ [extension]) s)
              else Inr (setExtensions ((Extensions (Spec s))[nat index := extension]) s)))"

section \<open>Conditions\<close>

text \<open>
  Modelled from the spec: the condition record and its update are code of \<open>api/v1\<close>,
  which is not among the sources. The spec gives a condition as
  \<open>{type, status \<in> {True, False, Unknown}, reason, message, time}\<close>, upserted by its
  type: a condition of the same type is replaced where it stands, otherwise the new
  condition is appended. The transition time is left out of the record. The type and
  reason constants are the names the code uses.
\<close>

datatype ConditionStatus = ConditionTrue | ConditionFalse | ConditionUnknown

record ('t, 'r) Condition =
  condType :: 't
  condStatus :: ConditionStatus
  condReason :: 'r
  condMessage :: string

fun SetStatusCondition :: "('t, 'r) Condition \<Rightarrow> ('t, 'r) Condition list \<Rightarrow> ('t, 'r) Condition list" where
  "SetStatusCondition c [] = [c]"
| "SetStatusCondition c (x # xs) =
     (if condType x = condType c then c # xs else x # SetStatusCondition c xs)"

section \<open>Credential rotation (internal/controller/gardener_cluster_controller.go)\<close>

definition lastKubeconfigSyncAnnotation :: string where
  "lastKubeconfigSyncAnnotation = ''operator.kyma-project.io/last-sync''"

definition forceKubeconfigRotationAnnotation :: string where
  "forceKubeconfigRotationAnnotation = ''operator.kyma-project.io/force-kubeconfig-rotation''"

definition clusterCRNameLabel :: string where
  "clusterCRNameLabel = ''operator.kyma-project.io/cluster-name''"

subsection \<open>Objects\<close>

text \<open>
  The metadata every Kubernetes object embeds, the Secret, and the GardenerCluster
  with the fields of its spec that the controller reads:
  \<open>Spec.Shoot.Name\<close> and \<open>Spec.Kubeconfig.Secret.{Name, Namespace, Key}\<close>.
\<close>

record ObjectMeta =
  Name :: string
  Namespace :: string
  Labels :: gomap
  Annotations :: gomap

record Secret = ObjectMeta +
  Data :: gomap
  StringData :: gomap

datatype GardenerClusterConditionType = ConditionTypeKubeconfigManagement

datatype GardenerClusterConditionReason =
    ConditionReasonKubeconfigSecretCreated
  | ConditionReasonKubeconfigSecretRotated
  | ConditionReasonFailedToGetSecret
  | ConditionReasonFailedToCreateSecret
  | ConditionReasonFailedToUpdateSecret
  | ConditionReasonFailedToDeleteSecret
  | ConditionReasonFailedToGetKubeconfig

record GardenerCluster = ObjectMeta +
  ShootName :: string
  KubeconfigSecretName :: string
  KubeconfigSecretNamespace :: string
  KubeconfigSecretKey :: string
  StatusConditions :: "(GardenerClusterConditionType, GardenerClusterConditionReason) Condition list"

text \<open>
  Modelled from the spec: \<open>UpdateConditionForErrorState\<close> and
  \<open>UpdateConditionForReadyState\<close> are methods of \<open>api/v1\<close>, not among the sources.
  An error condition has status False and carries the error's message; a ready
  condition has the status it is given.
\<close>

definition UpdateConditionForErrorState ::
  "GardenerClusterConditionType \<Rightarrow> GardenerClusterConditionReason \<Rightarrow> error option \<Rightarrow>
   GardenerCluster \<Rightarrow> GardenerCluster" where
  "UpdateConditionForErrorState conditionType reason err cluster =
     cluster\<lparr> StatusConditions :=
       SetStatusCondition
         \<lparr> condType = conditionType, condStatus = ConditionFalse, condReason = reason,
           condMessage = (case err of None \<Rightarrow> [] | Some e \<Rightarrow> errorString e) \<rparr>
         (StatusConditions cluster) \<rparr>"

definition UpdateConditionForReadyState ::
  "GardenerClusterConditionType \<Rightarrow> GardenerClusterConditionReason \<Rightarrow> ConditionStatus \<Rightarrow>
   GardenerCluster \<Rightarrow> GardenerCluster" where
  "UpdateConditionForReadyState conditionType reason conditionStatus cluster =
     cluster\<lparr> StatusConditions :=
       SetStatusCondition
         \<lparr> condType = conditionType, condStatus = conditionStatus, condReason = reason,
           condMessage = [] \<rparr>
         (StatusConditions cluster) \<rparr>"

subsection \<open>Time\<close>

text \<open>
  A \<open>time.Time\<close> is an instant, counted in nanoseconds; a \<open>time.Duration\<close> is an
  \<open>int64\<close> of nanoseconds. \<open>Time.Sub\<close> saturates at the least and the greatest
  duration. \<open>Duration.Minutes\<close> returns a \<open>float64\<close>; the model computes the quotient
  and the comparison with the ratio \<open>0.95\<close> in exact arithmetic, so the rounding of
  \<open>float64\<close> is not part of it.
\<close>

type_synonym Time = int
type_synonym Duration = int

definition minDuration :: Duration where
  "minDuration = - (2 ^ 63)"

definition maxDuration :: Duration where
  "maxDuration = 2 ^ 63 - 1"

definition Sub :: "Time \<Rightarrow> Time \<Rightarrow> Duration" where
  "Sub t u =
     (let d = t - u
      in if d < minDuration then minDuration else if maxDuration < d then maxDuration else d)"

definition Minute :: Duration where
  "Minute = 60 * 1000000000"

definition Minutes :: "Duration \<Rightarrow> real" where
  "Minutes d = real_of_int d / real_of_int Minute"

definition rotationPeriodRatio :: real where
  "rotationPeriodRatio = 0.95"

subsection \<open>The cluster, the secret store and the credential provider\<close>

text \<open>
  The API server as the controller sees it during one invocation: the Secrets, the
  GardenerClusters, and the log of the writes the controller has asked for (a write that
  the server refused is in the log too).
\<close>

datatype call =
    CallCreate Secret
  | CallUpdate Secret
  | CallDelete Secret
  | CallUpdateCluster GardenerCluster
  | CallStatusUpdate GardenerCluster

record world =
  secrets :: "Secret list"
  clusters :: "GardenerCluster list"
  calls :: "call list"

text \<open>
  What the collaborators answer during one invocation. Each call site of the client runs
  at most once in an invocation, and each has its own failure: \<open>None\<close> lets the call
  succeed. The two readings of the clock (\<open>time.Now()\<close> in \<open>Reconcile\<close> and in
  \<open>secretRotationTimePassed\<close>) and the RFC3339 parser and formatter of the standard
  library are inputs as well.
\<close>

record env =
  getErr :: "error option"
  listErr :: "error option"
  createErr :: "error option"
  updateErr :: "error option"
  deleteErr :: "error option"
  regetErr :: "error option"
  clusterUpdateErr :: "error option"
  statusUpdateErr :: "error option"
  startTime :: Time
  now :: Time
  parseRFC3339 :: "string \<Rightarrow> Time option"
  formatRFC3339 :: "Time \<Rightarrow> string"

text \<open>The controller: its credential provider (\<open>Fetch\<close>) and its rotation period.\<close>

record controller =
  Fetch :: "string \<Rightarrow> string \<times> error option"
  rotationPeriod :: Duration

record Request =
  reqName :: string
  reqNamespace :: string

record Result =
  Requeue :: bool
  RequeueAfter :: Duration

definition sameObject :: "'a ObjectMeta_scheme \<Rightarrow> 'b ObjectMeta_scheme \<Rightarrow> bool" where
  "sameObject a b = (Name a = Name b \<and> Namespace a = Namespace b)"

text \<open>\<open>client.MatchingLabels\<close>: every pair of the selector is a label of the object.\<close>

definition MatchingLabels :: "(string \<times> string) list \<Rightarrow> 'a ObjectMeta_scheme \<Rightarrow> bool" where
  "MatchingLabels selector obj = list_all (\<lambda>(k, v). mapLookup (Labels obj) k = Some v) selector"

definition client_List :: "env \<Rightarrow> world \<Rightarrow> (string \<times> string) list \<Rightarrow> Secret list \<times> error option" where
  "client_List E w selector =
     (case listErr E of
        Some e \<Rightarrow> ([], Some e)
      | None \<Rightarrow> (filter (MatchingLabels selector) (secrets w), None))"

definition client_Get :: "error option \<Rightarrow> world \<Rightarrow> string \<times> string \<Rightarrow> GardenerCluster option \<times> error option" where
  "client_Get failure w key =
     (case failure of
        Some e \<Rightarrow> (None, Some e)
      | None \<Rightarrow>
          (case find (\<lambda>c. Namespace c = fst key \<and> Name c = snd key) (clusters w) of
             None \<Rightarrow> (None, Some (NotFound ''gardenercluster not found''))
           | Some c \<Rightarrow> (Some c, None)))"

definition client_Create :: "env \<Rightarrow> Secret \<Rightarrow> world \<Rightarrow> error option \<times> world" where
  "client_Create E s w =
     (case createErr E of
        Some e \<Rightarrow> (Some e, w\<lparr> calls := calls w @ [CallCreate s] \<rparr>)
      | None \<Rightarrow> (None, w\<lparr> secrets := secrets w @ [s], calls := calls w @ [CallCreate s] \<rparr>))"

definition client_Update :: "env \<Rightarrow> Secret \<Rightarrow> world \<Rightarrow> error option \<times> world" where
  "client_Update E s w =
     (case updateErr E of
        Some e \<Rightarrow> (Some e, w\<lparr> calls := calls w @ [CallUpdate s] \<rparr>)
      | None \<Rightarrow>
          (None, w\<lparr> secrets := map (\<lambda>x. if sameObject x s then s else x) (secrets w),
                     calls := calls w @ [CallUpdate s] \<rparr>))"

definition client_Delete :: "env \<Rightarrow> Secret \<Rightarrow> world \<Rightarrow> error option \<times> world" where
  "client_Delete E s w =
     (case deleteErr E of
        Some e \<Rightarrow> (Some e, w\<lparr> calls := calls w @ [CallDelete s] \<rparr>)
      | None \<Rightarrow>
          (None, w\<lparr> secrets := filter (\<lambda>x. \<not> sameObject x s) (secrets w),
                     calls := calls w @ [CallDelete s] \<rparr>))"

definition client_UpdateCluster :: "env \<Rightarrow> GardenerCluster \<Rightarrow> world \<Rightarrow> error option \<times> world" where
  "client_UpdateCluster E c w =
     (case clusterUpdateErr E of
        Some e \<Rightarrow> (Some e, w\<lparr> calls := calls w @ [CallUpdateCluster c] \<rparr>)
      | None \<Rightarrow>
          (None, w\<lparr> clusters := map (\<lambda>x. if sameObject x c then c else x) (clusters w),
                     calls := calls w @ [CallUpdateCluster c] \<rparr>))"

text \<open>\<open>Status().Update\<close> writes the status of the object and nothing else of it.\<close>

definition client_StatusUpdate :: "env \<Rightarrow> GardenerCluster \<Rightarrow> world \<Rightarrow> error option \<times> world" where
  "client_StatusUpdate E c w =
     (case statusUpdateErr E of
        Some e \<Rightarrow> (Some e, w\<lparr> calls := calls w @ [CallStatusUpdate c] \<rparr>)
      | None \<Rightarrow>
          (None, w\<lparr> clusters := map (\<lambda>x. if sameObject x c
                                          then x\<lparr> StatusConditions := StatusConditions c \<rparr> else x)
                                   (clusters w),
                     calls := calls w @ [CallStatusUpdate c] \<rparr>))"

subsection \<open>The reconciler\<close>

datatype kubeconfigStatus = ksZero | ksCreated | ksModified | ksRotated

definition resultWithRequeue :: "controller \<Rightarrow> Result" where
  "resultWithRequeue C = \<lparr> Requeue = True, RequeueAfter = rotationPeriod C \<rparr>"

definition resultWithoutRequeue :: "controller \<Rightarrow> Result" where
  "resultWithoutRequeue C = \<lparr> Requeue = False, RequeueAfter = 0 \<rparr>"

definition persistStatusChange :: "env \<Rightarrow> GardenerCluster \<Rightarrow> world \<Rightarrow> error option \<times> world" where
  "persistStatusChange E cluster w = client_StatusUpdate E cluster w"

definition deleteKubeconfigSecret :: "env \<Rightarrow> string \<Rightarrow> world \<Rightarrow> error option \<times> world" where
  "deleteKubeconfigSecret E clusterCRName w =
     (let selector = [(clusterCRNameLabel, clusterCRName)];
          (items, err) = client_List E w selector
      in if err \<noteq> None then (err, w)
         else if length items \<noteq> 1
         then (Some (Failure (''unexpected numer of secrets found for cluster CR `''
                               @ clusterCRName @ ''`'')), w)
         else client_Delete E (items ! 0) w)"

definition getSecret :: "env \<Rightarrow> world \<Rightarrow> string \<Rightarrow> Secret option \<times> error option" where
  "getSecret E w shootName =
     (let shootNameSelector = [(''kyma-project.io/shoot-name'', shootName)];
          (items, err) = client_List E w shootNameSelector
      in if err \<noteq> None then (None, err)
         else (let size = length items
               in if size = 0 then (None, Some (NotFound []))
                  else if size > 1
                  then (None, Some (Failure (''unexpected numer of secrets found for shoot `''
                                             @ shootName @ ''`'')))
                  else (Some (items ! 0), None)))"

definition secretRotationForced :: "GardenerCluster \<Rightarrow> bool" where
  "secretRotationForced cluster =
     (case Annotations cluster of
        None \<Rightarrow> False
      | Some annotations \<Rightarrow> annotations forceKubeconfigRotationAnnotation \<noteq> None)"

definition secretRotationTimePassed :: "env \<Rightarrow> Secret option \<Rightarrow> Duration \<Rightarrow> bool" where
  "secretRotationTimePassed E secret period =
     (case secret of
        None \<Rightarrow> True
      | Some s \<Rightarrow>
          (case mapLookup (Annotations s) lastKubeconfigSyncAnnotation of
             None \<Rightarrow> True
           | Some lastSyncTimeString \<Rightarrow>
               (case parseRFC3339 E lastSyncTimeString of
                  None \<Rightarrow> True
                | Some lastSyncTime \<Rightarrow>
                    (let alreadyValidFor = Sub (now E) lastSyncTime
                     in Minutes alreadyValidFor \<ge> rotationPeriodRatio * Minutes period))))"

definition secretNeedsToBeRotated :: "env \<Rightarrow> GardenerCluster \<Rightarrow> Secret option \<Rightarrow> Duration \<Rightarrow> bool" where
  "secretNeedsToBeRotated E cluster secret period =
     (secretRotationTimePassed E secret period \<or> secretRotationForced cluster)"

definition newSecret :: "env \<Rightarrow> GardenerCluster \<Rightarrow> string \<Rightarrow> Time \<Rightarrow> Secret" where
  "newSecret E cluster kubeconfig lastSyncTime =
     (let copied = (case Labels cluster of None \<Rightarrow> Map.empty | Some l \<Rightarrow> l);
          labels = copied(''operator.kyma-project.io/managed-by'' \<mapsto> ''infrastructure-manager'',
                          clusterCRNameLabel \<mapsto> Name cluster)
      in \<lparr> Name = KubeconfigSecretName cluster,
           Namespace = KubeconfigSecretNamespace cluster,
           Labels = Some labels,
           Annotations = Some [lastKubeconfigSyncAnnotation \<mapsto> formatRFC3339 E lastSyncTime],
           Data = None,
           StringData = Some [KubeconfigSecretKey cluster \<mapsto> kubeconfig] \<rparr>)"

definition createNewSecret ::
  "env \<Rightarrow> string \<Rightarrow> GardenerCluster \<Rightarrow> Time \<Rightarrow> world \<Rightarrow> error option \<times> GardenerCluster \<times> world" where
  "createNewSecret E kubeconfig cluster lastSyncTime w =
     (let secret = newSecret E cluster kubeconfig lastSyncTime;
          (err, w') = client_Create E secret w
      in if err \<noteq> None
         then (err,
               UpdateConditionForErrorState ConditionTypeKubeconfigManagement
                 ConditionReasonFailedToCreateSecret err cluster, w')
         else (None,
               UpdateConditionForReadyState ConditionTypeKubeconfigManagement
                 ConditionReasonKubeconfigSecretCreated ConditionTrue cluster, w'))"

definition removeKubeconfig :: "env \<Rightarrow> GardenerCluster \<Rightarrow> Secret option \<Rightarrow> world \<Rightarrow> error option \<times> world" where
  "removeKubeconfig E cluster existingSecret w =
     (case existingSecret of
        None \<Rightarrow> (None, w)
      | Some s \<Rightarrow>
          (let s1 = s\<lparr> Data := mapDelete (Data s) (KubeconfigSecretKey cluster) \<rparr>;
               s2 = (case Annotations s1 of
                       None \<Rightarrow> s1
                     | Some annotations \<Rightarrow>
                         s1\<lparr> Annotations := Some (annotations(lastKubeconfigSyncAnnotation := None)) \<rparr>)
           in client_Update E s2 w))"

definition updateExistingSecret ::
  "env \<Rightarrow> string \<Rightarrow> GardenerCluster \<Rightarrow> Secret \<Rightarrow> Time \<Rightarrow> world \<Rightarrow>
   error option \<times> GardenerCluster \<times> world" where
  "updateExistingSecret E kubeconfig cluster existingSecret lastSyncTime w =
     (let data = (case Data existingSecret of None \<Rightarrow> Map.empty | Some m \<Rightarrow> m);
          s1 = existingSecret\<lparr> Data := Some (data(KubeconfigSecretKey cluster \<mapsto> kubeconfig)) \<rparr>;
          annotations = (case Annotations s1 of None \<Rightarrow> Map.empty | Some a \<Rightarrow> a);
          s2 = s1\<lparr> Annotations :=
                     Some (annotations(lastKubeconfigSyncAnnotation \<mapsto> formatRFC3339 E lastSyncTime)) \<rparr>;
          (err, w') = client_Update E s2 w
      in if err \<noteq> None
         then (err,
               UpdateConditionForErrorState ConditionTypeKubeconfigManagement
                 ConditionReasonFailedToUpdateSecret err cluster, w')
         else (None,
               UpdateConditionForReadyState ConditionTypeKubeconfigManagement
                 ConditionReasonKubeconfigSecretRotated ConditionTrue cluster, w'))"

definition removeForceRotationAnnotation :: "env \<Rightarrow> GardenerCluster \<Rightarrow> world \<Rightarrow> error option \<times> world" where
  "removeForceRotationAnnotation E cluster w =
     (if secretRotationForced cluster
      then (let key = (Namespace cluster, Name cluster);
                (got, err) = client_Get (regetErr E) w key
            in case got of
                 None \<Rightarrow> (err, w)
               | Some clusterToUpdate \<Rightarrow>
                   (let annotations = mapDelete (Annotations clusterToUpdate)
                                        forceKubeconfigRotationAnnotation
                    in client_UpdateCluster E (clusterToUpdate\<lparr> Annotations := annotations \<rparr>) w))
      else (None, w))"

text \<open>
  \<open>handleKubeconfig\<close> returns the status and the error as the Go function does; the
  cluster it was given a pointer to, and the world, are returned updated.
\<close>

definition handleKubeconfig ::
  "controller \<Rightarrow> env \<Rightarrow> GardenerCluster \<Rightarrow> Time \<Rightarrow> world \<Rightarrow>
   (kubeconfigStatus \<times> error option) \<times> GardenerCluster \<times> world" where
  "handleKubeconfig C E cluster lastSyncTime w =
     (let (existingSecret, err) = getSecret E w (ShootName cluster)
      in if err \<noteq> None \<and> \<not> IsNotFound err
         then ((ksZero, err),
               UpdateConditionForErrorState ConditionTypeKubeconfigManagement
                 ConditionReasonFailedToGetSecret err cluster, w)
         else
          (let (kubeconfig, err) = Fetch C (ShootName cluster)
           in if err \<noteq> None
              then ((ksZero, err),
                    UpdateConditionForErrorState ConditionTypeKubeconfigManagement
                      ConditionReasonFailedToGetKubeconfig err cluster, w)
              else if secretRotationForced cluster
              then (let (err, w') = removeKubeconfig E cluster existingSecret w
                    in if err \<noteq> None
                       then ((ksZero, err),
                             UpdateConditionForErrorState ConditionTypeKubeconfigManagement
                               ConditionReasonFailedToDeleteSecret err cluster, w')
                       else ((ksRotated, None), cluster, w'))
              else if \<not> secretNeedsToBeRotated E cluster existingSecret (rotationPeriod C)
              then ((ksZero, None), cluster, w)
              else (case existingSecret of
                      Some s \<Rightarrow>
                        (let (err, cluster', w') = updateExistingSecret E kubeconfig cluster s lastSyncTime w
                         in ((ksModified, err), cluster', w'))
                    | None \<Rightarrow>
                        (let (err, cluster', w') = createNewSecret E kubeconfig cluster lastSyncTime w
                         in ((ksCreated, err), cluster', w')))))"

text \<open>
  \<open>Reconcile\<close>. The object is read by the request's namespaced name; the early returns
  of the Go function are the branches of the conditionals.
\<close>

definition Reconcile :: "controller \<Rightarrow> env \<Rightarrow> Request \<Rightarrow> world \<Rightarrow> (Result \<times> error option) \<times> world" where
  "Reconcile C E req w =
     (let (got, err) = client_Get (getErr E) w (reqNamespace req, reqName req)
      in case got of
           None \<Rightarrow>
             (let (err, w') = (if IsNotFound err then deleteKubeconfigSecret E (reqName req) w
                               else (err, w))
              in ((resultWithoutRequeue C, err), w'))
         | Some cluster \<Rightarrow>
             (let lastSyncTime = startTime E;
                  ((kubeconfigStatus, err), cluster, w) = handleKubeconfig C E cluster lastSyncTime w
              in if err \<noteq> None
                 then (let (_, w) = persistStatusChange E cluster w
                       in ((resultWithoutRequeue C, if IsNotFound err then None else err), w))
                 else
                  (let (err, w) = (if kubeconfigStatus = ksRotated
                                   then removeForceRotationAnnotation E cluster w
                                   else (None, w))
                   in if kubeconfigStatus = ksRotated \<and> err \<noteq> None
                      then ((resultWithoutRequeue C, err), w)
                      else if kubeconfigStatus = ksCreated \<or> kubeconfigStatus = ksModified
                      then (let (_, w) = persistStatusChange E cluster w
                            in ((resultWithoutRequeue C, None), w))
                      else ((resultWithRequeue C, None), w))))"

subsection \<open>Objects written by the reconciler\<close>

text \<open>
  Names for three values that the functions above compute inline, for use in the
  statements below.
\<close>

text \<open>
  The Secret that \<open>updateExistingSecret\<close> hands to \<open>Update\<close>: the fresh
  credential under the configured key, the sync time in the last-sync annotation.
\<close>

definition updatedSecret :: "env \<Rightarrow> string \<Rightarrow> GardenerCluster \<Rightarrow> Secret \<Rightarrow> Time \<Rightarrow> Secret" where
  "updatedSecret E k cluster s t =
     s\<lparr> Data := Some ((case Data s of None \<Rightarrow> Map.empty | Some m \<Rightarrow> m)(KubeconfigSecretKey cluster \<mapsto> k)),
        Annotations := Some ((case Annotations s of None \<Rightarrow> Map.empty | Some a \<Rightarrow> a)
                               (lastKubeconfigSyncAnnotation \<mapsto> formatRFC3339 E t)) \<rparr>"

text \<open>
  The Secret that \<open>removeKubeconfig\<close> hands to \<open>Update\<close>: the credential
  entry and the last-sync annotation deleted.
\<close>

definition strippedSecret :: "GardenerCluster \<Rightarrow> Secret \<Rightarrow> Secret" where
  "strippedSecret cluster s =
     s\<lparr> Data := mapDelete (Data s) (KubeconfigSecretKey cluster),
        Annotations := mapDelete (Annotations s) lastKubeconfigSyncAnnotation \<rparr>"

text \<open>
  The GardenerCluster that \<open>removeForceRotationAnnotation\<close> hands to
  \<open>Update\<close>: the forced-rotation annotation deleted.
\<close>

definition unforced :: "GardenerCluster \<Rightarrow> GardenerCluster" where
  "unforced cluster =
     cluster\<lparr> Annotations := mapDelete (Annotations cluster) forceKubeconfigRotationAnnotation \<rparr>"

subsection \<open>The requeue time of the spec\<close>

text \<open>
  Follows the spec's words (section 4.4, caller policy for the outcome NONE): the
  remaining time until the rotation threshold is reached, the threshold being
  \<open>0.95\<close> of the rotation period after the last sync.
\<close>

definition remainingUntilRotationThreshold :: "env \<Rightarrow> Time \<Rightarrow> Duration \<Rightarrow> real" where
  "remainingUntilRotationThreshold E lastSyncTime period =
     rotationPeriodRatio * real_of_int period - real_of_int (now E - lastSyncTime)"

section \<open>Creating the Shoot (internal/controller/runtime/fsm/runtime_fsm_create_shoot.go)\<close>

datatype RuntimeConditionType = ConditionTypeRuntimeProvisioned

datatype RuntimeConditionReason =
    ConditionReasonGardenerError
  | ConditionReasonSeedNotFound
  | ConditionReasonAuditLogError
  | ConditionReasonConversionError
  | ConditionReasonShootCreationPending

text \<open>
  The Runtime, with the fields of \<open>Spec.Shoot\<close> that the state reads and the status
  that it writes.
\<close>

record Runtime =
  EnforceSeedLocation :: "bool option"
  ProviderType :: string
  Region :: string
  Purpose :: string
  State :: string
  Conditions :: "(RuntimeConditionType, RuntimeConditionReason) Condition list"

text \<open>
  Modelled from the spec: \<open>UpdateStatePending\<close> is a method of \<open>api/v1\<close>, not among
  the sources. It puts the Runtime in the pending state and upserts the condition.
\<close>

definition UpdateStatePending ::
  "RuntimeConditionType \<Rightarrow> RuntimeConditionReason \<Rightarrow> ConditionStatus \<Rightarrow> string \<Rightarrow>
   Runtime \<Rightarrow> Runtime" where
  "UpdateStatePending c r status msg rt =
     rt\<lparr> State := ''Pending'',
         Conditions := SetStatusCondition
           \<lparr> condType = c, condStatus = status, condReason = r, condMessage = msg \<rparr>
           (Conditions rt) \<rparr>"

text \<open>
  The machine: its configuration, and what it has done to its collaborators, the count
  of \<open>IncRuntimeFSMStopCounter\<close> and the Shoots handed to the backend's \<open>Create\<close>.
\<close>

record ConverterConfig =
  WindowMapPath :: string

record 'cfg fsmCfg =
  GardenerRequeueDuration :: Duration
  AuditLogMandatory :: bool
  ConverterConfigOf :: "'cfg ConverterConfig_scheme"

record ('cfg, 'mw) CreateOpts =
  optsConverterConfig :: "'cfg ConverterConfig_scheme"
  optsAuditLogData :: AuditLogData
  optsMaintenanceTimeWindow :: "'mw option"

text \<open>The field \<open>inst\<close> is \<open>systemState.instance\<close>.\<close>

record 'shoot systemState =
  inst :: Runtime
  stopCounter :: nat
  createCalls :: "'shoot list"

text \<open>
  What the collaborators of the state answer: the seed lookup, the audit-log data
  source, the maintenance-window source, the two steps of the conversion and the
  backend's \<open>Create\<close>. They are code outside the sources, or outside the repository.
\<close>

record ('cfg, 'mw, 'shoot) collaborators =
  seedForRegionAvailable :: "string \<Rightarrow> string \<Rightarrow> bool \<times> string list \<times> error option"
  GetAuditLogData :: "string \<Rightarrow> string \<Rightarrow> AuditLogData \<times> error option"
  GetMaintenanceWindow :: "string \<Rightarrow> string \<Rightarrow> 'mw option \<times> error option"
  ValidateRequiredLabels :: "Runtime \<Rightarrow> error option"
  ToShoot :: "('cfg, 'mw) CreateOpts \<Rightarrow> Runtime \<Rightarrow> 'shoot \<times> error option"
  emptyShoot :: 'shoot
  shootCreateErr :: "error option"

text \<open>
  Modelled from the spec: the helpers \<open>updateStatusAndRequeueAfter\<close> and
  \<open>updateStatePendingWithErrorAndStop\<close> are in a file of the package that is not among
  the sources. The spec gives the result of a state as a directive, stop or requeue
  after a duration; a terminal stop sets a False condition with the given reason and
  does not requeue.
\<close>

datatype directive = Stop | RequeueAfterDuration Duration

definition updateStatusAndRequeueAfter ::
  "Duration \<Rightarrow> 'shoot systemState \<Rightarrow> directive \<times> 'shoot systemState" where
  "updateStatusAndRequeueAfter after s = (RequeueAfterDuration after, s)"

definition updateStatePendingWithErrorAndStop ::
  "RuntimeConditionType \<Rightarrow> RuntimeConditionReason \<Rightarrow> string \<Rightarrow> 'shoot systemState \<Rightarrow>
   directive \<times> 'shoot systemState" where
  "updateStatePendingWithErrorAndStop c r msg s =
     (Stop, s\<lparr> inst := UpdateStatePending c r ConditionFalse msg (inst s) \<rparr>)"

definition IncRuntimeFSMStopCounter :: "'shoot systemState \<Rightarrow> 'shoot systemState" where
  "IncRuntimeFSMStopCounter s = s\<lparr> stopCounter := stopCounter s + 1 \<rparr>"

definition ShootClient_Create ::
  "('cfg, 'mw, 'shoot) collaborators \<Rightarrow> 'shoot \<Rightarrow> 'shoot systemState \<Rightarrow> error option \<times> 'shoot systemState" where
  "ShootClient_Create K shoot s = (shootCreateErr K, s\<lparr> createCalls := createCalls s @ [shoot] \<rparr>)"

definition msgFailedToConfigureAuditlogs :: string where
  "msgFailedToConfigureAuditlogs = ''Failed to configure audit logs''"

text \<open>\<open>fmt\<close>'s \<open>%v\<close> of a slice of strings: the elements between brackets, separated by spaces.\<close>

fun joinSpace :: "string list \<Rightarrow> string" where
  "joinSpace [] = []"
| "joinSpace [x] = x"
| "joinSpace (x # y # ys) = x @ '' '' @ joinSpace (y # ys)"

definition fmtStrings :: "string list \<Rightarrow> string" where
  "fmtStrings xs = ''['' @ joinSpace xs @ '']''"

definition convertCreate ::
  "('cfg, 'mw, 'shoot) collaborators \<Rightarrow> Runtime \<Rightarrow> ('cfg, 'mw) CreateOpts \<Rightarrow> 'shoot \<times> error option" where
  "convertCreate K rt opts =
     (let err = ValidateRequiredLabels K rt
      in if err \<noteq> None then (emptyShoot K, err)
         else (let (newShoot, err) = ToShoot K opts rt
               in if err \<noteq> None then (newShoot, err) else (newShoot, None)))"

definition sFnCreateShoot ::
  "'cfg fsmCfg \<Rightarrow> ('cfg, 'mw, 'shoot) collaborators \<Rightarrow> 'shoot systemState \<Rightarrow>
   directive \<times> 'shoot systemState" where
  "sFnCreateShoot m K s =
     (let enforce = (EnforceSeedLocation (inst s) = Some True);
          (seedAvailable, regionsWithSeeds, seedErr) =
             (if enforce
              then seedForRegionAvailable K (ProviderType (inst s)) (Region (inst s))
              else (True, [], None))
      in if enforce \<and> seedErr \<noteq> None
         then (let msg = ''Failed to verify whether seed is available for the region ''
                         @ Region (inst s) @ ''.''
               in updateStatusAndRequeueAfter (GardenerRequeueDuration m)
                    (s\<lparr> inst := UpdateStatePending ConditionTypeRuntimeProvisioned
                                       ConditionReasonGardenerError ConditionFalse msg (inst s) \<rparr>))
         else if enforce \<and> \<not> seedAvailable
         then (let msg = ''Cannot find available seed for the region '' @ Region (inst s)
                         @ ''. The followig regions have seeds ready: ''
                         @ fmtStrings regionsWithSeeds @ ''.''
               in updateStatePendingWithErrorAndStop ConditionTypeRuntimeProvisioned
                    ConditionReasonSeedNotFound msg (IncRuntimeFSMStopCounter s))
         else
          (let (data, err) = GetAuditLogData K (ProviderType (inst s)) (Region (inst s))
           in if err \<noteq> None \<and> AuditLogMandatory m
              then updateStatePendingWithErrorAndStop ConditionTypeRuntimeProvisioned
                     ConditionReasonAuditLogError msgFailedToConfigureAuditlogs
                     (IncRuntimeFSMStopCounter s)
              else
               (let maintenanceWindowData =
                      (if Purpose (inst s) = ''production''
                          \<and> WindowMapPath (ConverterConfigOf m) \<noteq> []
                       then fst (GetMaintenanceWindow K (WindowMapPath (ConverterConfigOf m))
                                   (Region (inst s)))
                       else None);
                    (shoot, err) = convertCreate K (inst s)
                       \<lparr> optsConverterConfig = ConverterConfigOf m,
                         optsAuditLogData = data,
                         optsMaintenanceTimeWindow = maintenanceWindowData \<rparr>
                in if err \<noteq> None
                   then updateStatePendingWithErrorAndStop ConditionTypeRuntimeProvisioned
                          ConditionReasonConversionError ''Runtime conversion error''
                          (IncRuntimeFSMStopCounter s)
                   else
                    (let (err, s) = ShootClient_Create K shoot s
                     in case err of
                          Some e \<Rightarrow>
                            updateStatusAndRequeueAfter (GardenerRequeueDuration m)
                              (s\<lparr> inst := UpdateStatePending ConditionTypeRuntimeProvisioned
                                   ConditionReasonGardenerError ConditionFalse
                                   (''Gardener API create error: '' @ errorString e) (inst s) \<rparr>)
                        | None \<Rightarrow>
                            updateStatusAndRequeueAfter (GardenerRequeueDuration m)
                              (s\<lparr> inst := UpdateStatePending ConditionTypeRuntimeProvisioned
                                   ConditionReasonShootCreationPending ConditionUnknown
                                   ''Shoot is pending'' (inst s) \<rparr>)))))"

section \<open>Sample values\<close>

text \<open>Concrete inputs on which the theorems below are exercised.\<close>

definition sampleEncode :: "AuditlogExtensionConfig \<Rightarrow> error + string" where
  "sampleEncode cfg = Inr (cfgTenantID cfg @ ''@'' @ cfgServiceURL cfg)"

definition sampleData :: AuditLogData where
  "sampleData = \<lparr> TenantID = ''t1'', ServiceURL = ''https://audit'', SecretName = ''sec'' \<rparr>"

definition dnsExtension :: Extension where
  "dnsExtension = \<lparr> Type = ''shoot-dns-service'', ProviderConfig = None, Disabled = None \<rparr>"

definition staleAuditExtension :: Extension where
  "staleAuditExtension =
     \<lparr> Type = ''shoot-auditlog-service'', ProviderConfig = None, Disabled = Some True \<rparr>"

definition sampleShoot :: "Extension list \<Rightarrow> unit Shoot" where
  "sampleShoot es = \<lparr> Spec = \<lparr> Extensions = es \<rparr> \<rparr>"

definition sampleParse :: "string \<Rightarrow> Time option" where
  "sampleParse str = (if str = ''1970-01-01T00:00:00Z'' then Some 0 else None)"

definition sampleFormat :: "Time \<Rightarrow> string" where
  "sampleFormat t = (if t = 0 then ''1970-01-01T00:00:00Z'' else ''1970-01-01T01:00:00Z'')"

definition sampleEnv :: "Time \<Rightarrow> env" where
  "sampleEnv t =
     \<lparr> getErr = None, listErr = None, createErr = None, updateErr = None, deleteErr = None,
       regetErr = None, clusterUpdateErr = None, statusUpdateErr = None,
       startTime = t, now = t, parseRFC3339 = sampleParse, formatRFC3339 = sampleFormat \<rparr>"

definition hundredMinutes :: Duration where
  "hundredMinutes = 100 * Minute"

definition sampleController :: "string \<times> error option \<Rightarrow> controller" where
  "sampleController answer = \<lparr> Fetch = (\<lambda>shootName. answer), rotationPeriod = hundredMinutes \<rparr>"

definition sampleSecret :: "string \<Rightarrow> Secret" where
  "sampleSecret name =
     \<lparr> Name = name, Namespace = ''kcp-system'',
       Labels = Some [''kyma-project.io/shoot-name'' \<mapsto> ''shoot-1'',
                      ''operator.kyma-project.io/cluster-name'' \<mapsto> ''cluster-1''],
       Annotations = Some [''operator.kyma-project.io/last-sync'' \<mapsto> ''1970-01-01T00:00:00Z''],
       Data = Some [''config'' \<mapsto> ''old-kubeconfig''],
       StringData = None \<rparr>"

definition forcedAnnotations :: gomap where
  "forcedAnnotations = Some [''operator.kyma-project.io/force-kubeconfig-rotation'' \<mapsto> ''true'']"

definition sampleCluster :: "gomap \<Rightarrow> GardenerCluster" where
  "sampleCluster annotations =
     \<lparr> Name = ''cluster-1'', Namespace = ''kcp-system'',
       Labels = Some [''kyma-project.io/shoot-name'' \<mapsto> ''shoot-1''],
       Annotations = annotations,
       ShootName = ''shoot-1'',
       KubeconfigSecretName = ''kubeconfig-cluster-1'',
       KubeconfigSecretNamespace = ''kcp-system'',
       KubeconfigSecretKey = ''config'',
       StatusConditions = [] \<rparr>"

definition sampleWorld :: "Secret list \<Rightarrow> GardenerCluster list \<Rightarrow> world" where
  "sampleWorld ss cs = \<lparr> secrets = ss, clusters = cs, calls = [] \<rparr>"

definition sampleRequest :: Request where
  "sampleRequest = \<lparr> reqName = ''cluster-1'', reqNamespace = ''kcp-system'' \<rparr>"

definition freshFetch :: "string \<times> error option" where
  "freshFetch = (''fresh-kubeconfig'', None)"

definition failedFetch :: "string \<times> error option" where
  "failedFetch = ([], Some (Failure ''gardener unavailable''))"

definition sampleRuntime :: Runtime where
  "sampleRuntime =
     \<lparr> EnforceSeedLocation = Some True, ProviderType = ''aws'', Region = ''eu-west-1'',
       Purpose = ''production'', State = [], Conditions = [] \<rparr>"

definition sampleCollaborators :: "(unit, unit, string) collaborators" where
  "sampleCollaborators =
     \<lparr> seedForRegionAvailable = (\<lambda>providerType region. (False, [''eu-central-1''], None)),
       GetAuditLogData = (\<lambda>providerType region. (sampleData, None)),
       GetMaintenanceWindow = (\<lambda>path region. (None, None)),
       ValidateRequiredLabels = (\<lambda>rt. None),
       ToShoot = (\<lambda>opts rt. (''shoot'', None)),
       emptyShoot = [],
       shootCreateErr = None \<rparr>"

definition sampleFsm :: "unit fsmCfg" where
  "sampleFsm =
     \<lparr> GardenerRequeueDuration = 3000000000, AuditLogMandatory = True,
       ConverterConfigOf = \<lparr> WindowMapPath = [] \<rparr> \<rparr>"

definition sampleSystemState :: "string systemState" where
  "sampleSystemState = \<lparr> inst = sampleRuntime, stopCounter = 0, createCalls = [] \<rparr>"

section \<open>Lemmas: the audit-log extension\<close>

lemma IndexFunc_from_none:
  "(IndexFunc_from i xs f = - 1) = (\<forall>x \<in> set xs. \<not> f x)"
  by (induction xs arbitrary: i) auto

lemma IndexFunc_from_first:
  assumes "\<exists>x \<in> set xs. f x"
  shows "\<exists>k < length xs. IndexFunc_from i xs f = int (i + k) \<and> f (xs ! k) \<and> (\<forall>j < k. \<not> f (xs ! j))"
  using assms
proof (induction xs arbitrary: i)
  case Nil
  then show ?case by simp
next
  case (Cons x xs)
  show ?case
  proof (cases "f x")
    case True
    then show ?thesis by (intro exI [of _ 0]) simp
  next
    case False
    with Cons.prems have "\<exists>y \<in> set xs. f y" by auto
    from Cons.IH [OF this, of "Suc i"] obtain k where k:
      "k < length xs" "IndexFunc_from (Suc i) xs f = int (Suc i + k)"
      "f (xs ! k)" "\<forall>j < k. \<not> f (xs ! j)" by blast
    have "\<forall>j < Suc k. \<not> f ((x # xs) ! j)"
      using False k(4) by (auto simp: nth_Cons split: nat.splits)
    with False k(1-3) show ?thesis
      by (intro exI [of _ "Suc k"]) simp
  qed
qed

lemma IndexFunc_first:
  assumes "\<exists>x \<in> set xs. f x"
  shows "\<exists>k < length xs. IndexFunc xs f = int k \<and> f (xs ! k) \<and> (\<forall>j < k. \<not> f (xs ! j))"
  using IndexFunc_from_first [OF assms, of 0] by (simp add: IndexFunc_def)

lemma IndexFunc_none: "(IndexFunc xs f = - 1) = (\<forall>x \<in> set xs. \<not> f x)"
  by (simp add: IndexFunc_def IndexFunc_from_none)

text \<open>Where the first match is known, \<open>IndexFunc\<close> returns it.\<close>

lemma IndexFunc_eqI:
  assumes "k < length xs" "f (xs ! k)" "\<forall>j < k. \<not> f (xs ! j)"
  shows "IndexFunc xs f = int k"
proof -
  from assms(1,2) have "\<exists>x \<in> set xs. f x" by (metis nth_mem)
  from IndexFunc_first [OF this] obtain k' where k':
    "k' < length xs" "IndexFunc xs f = int k'" "f (xs ! k')" "\<forall>j < k'. \<not> f (xs ! j)" by blast
  have "k' = k"
  proof (rule ccontr)
    assume "k' \<noteq> k"
    then consider "k' < k" | "k < k'" by linarith
    then show False using assms k' by cases auto
  qed
  with k'(2) show ?thesis by simp
qed

lemma Type_auditlogExtension [simp]: "Type (auditlogExtension b) = auditlogExtensionType"
  by (simp add: auditlogExtension_def)

lemma Extensions_setExtensions [simp]: "Extensions (Spec (setExtensions es s)) = es"
  by (simp add: setExtensions_def)

lemma setExtensions_twice [simp]: "setExtensions es (setExtensions es' s) = setExtensions es s"
  by (simp add: setExtensions_def)

lemma oSetExtension_absent:
  assumes enc: "jsonEncode (auditlogConfig d) = Inr raw"
    and none: "\<forall>e \<in> set (Extensions (Spec s)). Type e \<noteq> auditlogExtensionType"
  shows "oSetExtension jsonEncode d s =
         Inr (setExtensions (Extensions (Spec s) @ [auditlogExtension raw]) s)"
proof -
  from none have "IndexFunc (Extensions (Spec s)) (\<lambda>e. Type e = auditlogExtensionType) = - 1"
    by (simp add: IndexFunc_none)
  with enc show ?thesis by (simp add: oSetExtension_def)
qed

lemma oSetExtension_present:
  assumes enc: "jsonEncode (auditlogConfig d) = Inr raw"
    and i: "i < length (Extensions (Spec s))"
      "Type (Extensions (Spec s) ! i) = auditlogExtensionType"
      "\<forall>j < i. Type (Extensions (Spec s) ! j) \<noteq> auditlogExtensionType"
  shows "oSetExtension jsonEncode d s =
         Inr (setExtensions ((Extensions (Spec s))[i := auditlogExtension raw]) s)"
proof -
  have "IndexFunc (Extensions (Spec s)) (\<lambda>e. Type e = auditlogExtensionType) = int i"
    using i by (intro IndexFunc_eqI) auto
  with enc show ?thesis by (simp add: oSetExtension_def)
qed

section \<open>Lemmas: the credential rotation\<close>

lemma getSecret_none:
  assumes "listErr E = None" "filter (MatchingLabels [(''kyma-project.io/shoot-name'', n)]) (secrets w) = []"
  shows "getSecret E w n = (None, Some (NotFound []))"
  using assms by (simp add: getSecret_def client_List_def)

lemma getSecret_one:
  assumes "listErr E = None" "filter (MatchingLabels [(''kyma-project.io/shoot-name'', n)]) (secrets w) = [s]"
  shows "getSecret E w n = (Some s, None)"
  using assms by (simp add: getSecret_def client_List_def)

lemma getSecret_many:
  assumes "listErr E = None" "length (filter (MatchingLabels [(''kyma-project.io/shoot-name'', n)]) (secrets w)) > 1"
  shows "getSecret E w n = (None, Some (Failure (''unexpected numer of secrets found for shoot `'' @ n @ ''`'')))"
proof -
  from assms(2) have "filter (MatchingLabels [(''kyma-project.io/shoot-name'', n)]) (secrets w) \<noteq> []"
    by auto
  with assms show ?thesis by (simp add: getSecret_def client_List_def Let_def)
qed

lemma handleKubeconfig_lookup_failed:
  assumes "getSecret E w (ShootName cluster) = (x, Some (Failure msg))"
  shows "handleKubeconfig C E cluster t w =
         ((ksZero, Some (Failure msg)),
          UpdateConditionForErrorState ConditionTypeKubeconfigManagement
            ConditionReasonFailedToGetSecret (Some (Failure msg)) cluster, w)"
  using assms by (simp add: handleKubeconfig_def IsNotFound_def)

lemma handleKubeconfig_fetch_failed:
  assumes "getSecret E w (ShootName cluster) = (x, err)" "err = None \<or> IsNotFound err"
    and "Fetch C (ShootName cluster) = (k, Some e)"
  shows "handleKubeconfig C E cluster t w =
         ((ksZero, Some e),
          UpdateConditionForErrorState ConditionTypeKubeconfigManagement
            ConditionReasonFailedToGetKubeconfig (Some e) cluster, w)"
  using assms by (auto simp: handleKubeconfig_def)

lemma handleKubeconfig_forced:
  assumes "getSecret E w (ShootName cluster) = (x, err)" "err = None \<or> IsNotFound err"
    and "Fetch C (ShootName cluster) = (k, None)"
    and "secretRotationForced cluster"
  shows "handleKubeconfig C E cluster t w =
         (let (err, w') = removeKubeconfig E cluster x w
          in if err \<noteq> None
             then ((ksZero, err),
                   UpdateConditionForErrorState ConditionTypeKubeconfigManagement
                     ConditionReasonFailedToDeleteSecret err cluster, w')
             else ((ksRotated, None), cluster, w'))"
  using assms by (auto simp: handleKubeconfig_def)

lemma handleKubeconfig_not_due:
  assumes "getSecret E w (ShootName cluster) = (x, err)" "err = None \<or> IsNotFound err"
    and "Fetch C (ShootName cluster) = (k, None)"
    and "\<not> secretRotationForced cluster"
    and "\<not> secretNeedsToBeRotated E cluster x (rotationPeriod C)"
  shows "handleKubeconfig C E cluster t w = ((ksZero, None), cluster, w)"
  using assms by (auto simp: handleKubeconfig_def)

lemma handleKubeconfig_update:
  assumes "getSecret E w (ShootName cluster) = (Some s, None)"
    and "Fetch C (ShootName cluster) = (k, None)"
    and "\<not> secretRotationForced cluster"
    and "secretNeedsToBeRotated E cluster (Some s) (rotationPeriod C)"
  shows "handleKubeconfig C E cluster t w =
         (let (err, cluster', w') = updateExistingSecret E k cluster s t w
          in ((ksModified, err), cluster', w'))"
  using assms by (simp add: handleKubeconfig_def)

lemma handleKubeconfig_create:
  assumes "getSecret E w (ShootName cluster) = (None, err)" "err = None \<or> IsNotFound err"
    and "Fetch C (ShootName cluster) = (k, None)"
    and "\<not> secretRotationForced cluster"
  shows "handleKubeconfig C E cluster t w =
         (let (err, cluster', w') = createNewSecret E k cluster t w
          in ((ksCreated, err), cluster', w'))"
  using assms
  by (auto simp: handleKubeconfig_def secretNeedsToBeRotated_def secretRotationTimePassed_def)

lemma client_Update_calls: "calls (snd (client_Update E s w)) = calls w @ [CallUpdate s]"
  by (simp add: client_Update_def split: option.splits)

lemma client_Create_calls: "calls (snd (client_Create E s w)) = calls w @ [CallCreate s]"
  by (simp add: client_Create_def split: option.splits)

lemma createNewSecret_calls:
  "calls (snd (snd (createNewSecret E k cluster t w))) = calls w @ [CallCreate (newSecret E cluster k t)]"
proof -
  obtain err w' where eq: "client_Create E (newSecret E cluster k t) w = (err, w')"
    by (cases "client_Create E (newSecret E cluster k t) w")
  with client_Create_calls [of E "newSecret E cluster k t" w]
  have "calls w' = calls w @ [CallCreate (newSecret E cluster k t)]" by simp
  with eq show ?thesis by (simp add: createNewSecret_def)
qed

lemma updateExistingSecret_calls:
  "calls (snd (snd (updateExistingSecret E k cluster s t w))) = calls w @ [CallUpdate (updatedSecret E k cluster s t)]"
proof -
  obtain err w' where eq: "client_Update E (updatedSecret E k cluster s t) w = (err, w')"
    by (cases "client_Update E (updatedSecret E k cluster s t) w")
  with client_Update_calls [of E "updatedSecret E k cluster s t" w]
  have "calls w' = calls w @ [CallUpdate (updatedSecret E k cluster s t)]" by simp
  with eq show ?thesis by (simp add: updateExistingSecret_def updatedSecret_def)
qed

lemma removeKubeconfig_Some:
  "removeKubeconfig E cluster (Some s) w = client_Update E (strippedSecret cluster s) w"
  by (cases s; cases "Annotations s") (simp_all add: removeKubeconfig_def strippedSecret_def mapDelete_def)


lemma SetStatusCondition_mem: "c \<in> set (SetStatusCondition c cs)"
  by (induction cs) auto






lemma deleteKubeconfigSecret_one:
  assumes "listErr E = None" "filter (MatchingLabels [(clusterCRNameLabel, n)]) (secrets w) = [s]"
  shows "deleteKubeconfigSecret E n w = client_Delete E s w"
  using assms by (simp add: deleteKubeconfigSecret_def client_List_def)

lemma deleteKubeconfigSecret_not_one:
  assumes "listErr E = None" "length (filter (MatchingLabels [(clusterCRNameLabel, n)]) (secrets w)) \<noteq> 1"
  shows "deleteKubeconfigSecret E n w =
         (Some (Failure (''unexpected numer of secrets found for cluster CR `'' @ n @ ''`'')), w)"
  using assms by (simp add: deleteKubeconfigSecret_def client_List_def)

lemma Reconcile_gone:
  assumes "client_Get (getErr E) w (reqNamespace req, reqName req) = (None, err)" "IsNotFound err"
  shows "Reconcile C E req w =
         ((resultWithoutRequeue C, fst (deleteKubeconfigSecret E (reqName req) w)),
          snd (deleteKubeconfigSecret E (reqName req) w))"
  using assms by (simp add: Reconcile_def split_beta)

lemma Reconcile_zero:
  assumes "client_Get (getErr E) w (reqNamespace req, reqName req) = (Some cluster, gerr)"
    and "handleKubeconfig C E cluster (startTime E) w = ((ksZero, None), cluster', w')"
  shows "Reconcile C E req w = ((resultWithRequeue C, None), w')"
  using assms by (simp add: Reconcile_def)








section \<open>Lemmas: the sample values\<close>

lemmas sample_defs = sampleParse_def sampleFormat_def sampleEnv_def hundredMinutes_def
  sampleController_def sampleSecret_def forcedAnnotations_def sampleCluster_def
  sampleWorld_def sampleRequest_def


lemma sample_lookup:
  "mapLookup (Annotations (sampleSecret n)) lastKubeconfigSyncAnnotation = Some ''1970-01-01T00:00:00Z''"
  by (simp add: mapLookup_def sampleSecret_def lastKubeconfigSyncAnnotation_def)

lemma sample_parse: "parseRFC3339 (sampleEnv t) ''1970-01-01T00:00:00Z'' = Some 0"
  by (simp add: sampleEnv_def sampleParse_def)

lemma sample_unforced: "\<not> secretRotationForced (sampleCluster None)"
  by (simp add: secretRotationForced_def sampleCluster_def)


lemma sample_getSecret_one:
  "getSecret (sampleEnv t) (sampleWorld [sampleSecret n] cs) (ShootName (sampleCluster a))
   = (Some (sampleSecret n), None)"
  by (simp add: getSecret_def client_List_def MatchingLabels_def mapLookup_def sample_defs)


lemma sample_Get:
  "client_Get (getErr (sampleEnv t)) (sampleWorld ss [sampleCluster a])
     (reqNamespace sampleRequest, reqName sampleRequest) = (Some (sampleCluster a), None)"
  by (simp add: client_Get_def sample_defs)

lemma sample_Get_gone:
  "client_Get (getErr (sampleEnv t)) (sampleWorld ss [])
     (reqNamespace sampleRequest, reqName sampleRequest)
   = (None, Some (NotFound ''gardenercluster not found''))"
  by (simp add: client_Get_def sample_defs)

lemma sample_not_due:
  "\<not> secretNeedsToBeRotated (sampleEnv (10 * Minute)) (sampleCluster None)
       (Some (sampleSecret n)) hundredMinutes"
  by (simp add: secretNeedsToBeRotated_def secretRotationTimePassed_def sample_lookup
      sample_parse sample_unforced Minutes_def rotationPeriodRatio_def Sub_def
      minDuration_def maxDuration_def)
     (simp add: sampleEnv_def hundredMinutes_def Minute_def)

lemma sample_due:
  "secretRotationTimePassed (sampleEnv (96 * Minute)) (Some (sampleSecret n)) hundredMinutes"
  by (simp add: secretRotationTimePassed_def sample_lookup
      sample_parse Minutes_def rotationPeriodRatio_def Sub_def)
     (simp add: sampleEnv_def hundredMinutes_def Minute_def minDuration_def maxDuration_def)

lemma sample_filter:
  "filter (MatchingLabels [(''kyma-project.io/shoot-name'', ShootName (sampleCluster a))])
     (secrets (sampleWorld (map sampleSecret ns) cs)) = map sampleSecret ns"
  by (induction ns) (simp_all add: MatchingLabels_def mapLookup_def sample_defs)

lemma sample_fresh: "Fetch (sampleController freshFetch) n = (''fresh-kubeconfig'', None)"
  by (simp add: sampleController_def freshFetch_def)

lemma sample_filter_cr:
  "filter (MatchingLabels [(clusterCRNameLabel, reqName sampleRequest)])
     (secrets (sampleWorld (map sampleSecret ns) cs)) = map sampleSecret ns"
  by (induction ns)
     (simp_all add: MatchingLabels_def mapLookup_def clusterCRNameLabel_def sample_defs)

section \<open>The claims\<close>

subsection \<open>C1: The rotation-due decision\<close>



subsection \<open>C2: The secret lookup of handleKubeconfig\<close>

text \<open>
  C2. For every invocation of \<open>handleKubeconfig\<close> on an existing access object whose
  secret lookup (the List by the shoot-name label) succeeds. With 0 matches the not-found
  of the lookup is not an error: the invocation goes on without a secret, the only write
  it can issue is the Create of the new secret, and \<open>createNewSecret\<close> is what runs
  once the credential is fetched and rotation is not forced (an absent secret is always
  due). With exactly 1 match the invocation goes on with that secret: the only write it
  can issue is an Update of that object, and \<open>updateExistingSecret\<close> is what runs once
  the credential is fetched, rotation is not forced and the rotation time has passed.
  With 2 or more matches the invocation returns the error of the lookup and the world is
  as it was: no create, no update, no delete.
\<close>

theorem handleKubeconfig_secret_lookup:
  assumes list: "listErr E = None"
    and items: "items = filter (MatchingLabels [(''kyma-project.io/shoot-name'', ShootName cluster)]) (secrets w)"
    and fetch: "Fetch C (ShootName cluster) = (kubeconfig, ferr)"
    and r: "r = handleKubeconfig C E cluster t w"
  shows
   "(length items = 0 \<longrightarrow>
       (ferr = None \<and> \<not> secretRotationForced cluster \<longrightarrow>
          r = (let (err, cluster', w') = createNewSecret E kubeconfig cluster t w
               in ((ksCreated, err), cluster', w')))
     \<and> (calls (snd (snd r)) = calls w
        \<or> calls (snd (snd r)) = calls w @ [CallCreate (newSecret E cluster kubeconfig t)]))
  \<and> (length items = 1 \<longrightarrow>
       (ferr = None \<and> \<not> secretRotationForced cluster
          \<and> secretRotationTimePassed E (Some (items ! 0)) (rotationPeriod C) \<longrightarrow>
          r = (let (err, cluster', w') = updateExistingSecret E kubeconfig cluster (items ! 0) t w
               in ((ksModified, err), cluster', w')))
     \<and> (calls (snd (snd r)) = calls w
        \<or> (\<exists>s'. sameObject s' (items ! 0) \<and> calls (snd (snd r)) = calls w @ [CallUpdate s'])))
  \<and> (length items \<ge> 2 \<longrightarrow>
       fst r = (ksZero, Some (Failure (''unexpected numer of secrets found for shoot `''
                                        @ ShootName cluster @ ''`'')))
     \<and> snd (snd r) = w)"
proof (intro conjI impI)
  assume "length items = 0"
  then have g: "getSecret E w (ShootName cluster) = (None, Some (NotFound []))"
    using getSecret_none [OF list] items by simp
  have nf: "Some (NotFound []) = None \<or> IsNotFound (Some (NotFound []))"
    by (simp add: IsNotFound_def)
  {
    assume "ferr = None \<and> \<not> secretRotationForced cluster"
    with handleKubeconfig_create [OF g nf, of C kubeconfig t] fetch r
    show "r = (let (err, cluster', w') = createNewSecret E kubeconfig cluster t w
               in ((ksCreated, err), cluster', w'))" by simp
  }
  show "calls (snd (snd r)) = calls w
        \<or> calls (snd (snd r)) = calls w @ [CallCreate (newSecret E cluster kubeconfig t)]"
  proof (cases ferr)
    case (Some e)
    with handleKubeconfig_fetch_failed [OF g nf, of C kubeconfig e t] fetch r show ?thesis by simp
  next
    case None
    show ?thesis
    proof (cases "secretRotationForced cluster")
      case True
      with handleKubeconfig_forced [OF g nf, of C kubeconfig t] fetch None r show ?thesis
        by (simp add: removeKubeconfig_def)
    next
      case False
      with handleKubeconfig_create [OF g nf, of C kubeconfig t] fetch None r
      have "r = (let (err, cluster', w') = createNewSecret E kubeconfig cluster t w
               in ((ksCreated, err), cluster', w'))" by simp
      with createNewSecret_calls [of E kubeconfig cluster t w] show ?thesis
        by (simp add: split_beta)
    qed
  qed
next
  assume "length items = 1"
  then obtain s where s: "items = [s]" by (cases items) auto
  then have g: "getSecret E w (ShootName cluster) = (Some s, None)"
    using getSecret_one [OF list] items by simp
  have nf: "(None :: error option) = None \<or> IsNotFound None" by simp
  {
    assume "ferr = None \<and> \<not> secretRotationForced cluster
          \<and> secretRotationTimePassed E (Some (items ! 0)) (rotationPeriod C)"
    with handleKubeconfig_update [OF g, of C kubeconfig t] fetch r s
    show "r = (let (err, cluster', w') = updateExistingSecret E kubeconfig cluster (items ! 0) t w
               in ((ksModified, err), cluster', w'))"
      by (simp add: secretNeedsToBeRotated_def)
  }
  show "calls (snd (snd r)) = calls w
        \<or> (\<exists>s'. sameObject s' (items ! 0) \<and> calls (snd (snd r)) = calls w @ [CallUpdate s'])"
  proof (cases ferr)
    case (Some e)
    with handleKubeconfig_fetch_failed [OF g nf, of C kubeconfig e t] fetch r show ?thesis by simp
  next
    case None
    show ?thesis
    proof (cases "secretRotationForced cluster")
      case True
      have so: "sameObject (strippedSecret cluster s) s"
        by (simp add: sameObject_def strippedSecret_def)
      from True handleKubeconfig_forced [OF g nf, of C kubeconfig t] fetch None r
      have "snd (snd r) = snd (client_Update E (strippedSecret cluster s) w)"
        by (simp add: removeKubeconfig_Some split_beta)
      with client_Update_calls [of E "strippedSecret cluster s" w] so s show ?thesis by auto
    next
      case False
      show ?thesis
      proof (cases "secretNeedsToBeRotated E cluster (Some s) (rotationPeriod C)")
        case due: True
        have so: "sameObject (updatedSecret E kubeconfig cluster s t) s"
          by (simp add: sameObject_def updatedSecret_def)
        from due False handleKubeconfig_update [OF g, of C kubeconfig t] fetch None r
        have "snd (snd r) = snd (snd (updateExistingSecret E kubeconfig cluster s t w))"
          by (simp add: split_beta)
        with updateExistingSecret_calls [of E kubeconfig cluster s t w] so s show ?thesis by auto
      next
        case notdue: False
        with False handleKubeconfig_not_due [OF g nf, of C kubeconfig t] fetch None r
        show ?thesis by simp
      qed
    qed
  qed
next
  assume "2 \<le> length items"
  then have "length (filter (MatchingLabels [(''kyma-project.io/shoot-name'', ShootName cluster)]) (secrets w)) > 1"
    using items by simp
  from getSecret_many [OF list this] handleKubeconfig_lookup_failed [of E w cluster None _ C t] r
  show "fst r = (ksZero, Some (Failure (''unexpected numer of secrets found for shoot `''
                                        @ ShootName cluster @ ''`'')))"
    and "snd (snd r) = w" by simp_all
qed

text \<open>
  The theorem on stores with no, one and two matching secrets, 96 minutes after the last
  sync: the outcomes are created, modified, and the ambiguity error with the store
  untouched.
\<close>

theorem handleKubeconfig_secret_lookup_witness:
  "listErr (sampleEnv (96 * Minute)) = None
   \<and> \<not> secretRotationForced (sampleCluster None)
   \<and> secretRotationTimePassed (sampleEnv (96 * Minute)) (Some (sampleSecret ''a''))
        (rotationPeriod (sampleController freshFetch))
   \<and> fst (fst (handleKubeconfig (sampleController freshFetch) (sampleEnv (96 * Minute))
        (sampleCluster None) 0 (sampleWorld (map sampleSecret []) [sampleCluster None]))) = ksCreated
   \<and> fst (fst (handleKubeconfig (sampleController freshFetch) (sampleEnv (96 * Minute))
        (sampleCluster None) 0 (sampleWorld (map sampleSecret [''a'']) [sampleCluster None]))) = ksModified
   \<and> fst (handleKubeconfig (sampleController freshFetch) (sampleEnv (96 * Minute))
        (sampleCluster None) 0 (sampleWorld (map sampleSecret [''a'', ''b'']) [sampleCluster None]))
      = (ksZero, Some (Failure ''unexpected numer of secrets found for shoot `shoot-1`''))
   \<and> snd (snd (handleKubeconfig (sampleController freshFetch) (sampleEnv (96 * Minute))
        (sampleCluster None) 0 (sampleWorld (map sampleSecret [''a'', ''b'']) [sampleCluster None])))
      = sampleWorld (map sampleSecret [''a'', ''b'']) [sampleCluster None]"
proof -
  let ?E = "sampleEnv (96 * Minute)" and ?C = "sampleController freshFetch"
  let ?c = "sampleCluster None"
  have l: "listErr ?E = None" by (simp add: sampleEnv_def)
  have due: "secretRotationTimePassed ?E (Some (sampleSecret ''a'')) (rotationPeriod ?C)"
    using sample_due [of "''a''"] by (simp add: sampleController_def)
  note T0 = handleKubeconfig_secret_lookup [where E = ?E and cluster = ?c and t = 0 and C = ?C
      and kubeconfig = "''fresh-kubeconfig''" and ferr = None, OF l refl sample_fresh refl]
  have a: "fst (fst (handleKubeconfig ?C ?E ?c 0 (sampleWorld (map sampleSecret []) [?c]))) = ksCreated"
    using T0 [where w = "sampleWorld (map sampleSecret []) [?c]"] sample_unforced
    by (simp add: split_beta sample_filter del: list.map)
  have b: "fst (fst (handleKubeconfig ?C ?E ?c 0 (sampleWorld (map sampleSecret [''a'']) [?c]))) = ksModified"
    using T0 [where w = "sampleWorld (map sampleSecret [''a'']) [?c]"] sample_unforced due
    by (simp add: split_beta sample_filter del: list.map; simp)
  have c: "fst (handleKubeconfig ?C ?E ?c 0 (sampleWorld (map sampleSecret [''a'', ''b'']) [?c]))
      = (ksZero, Some (Failure ''unexpected numer of secrets found for shoot `shoot-1`''))
    \<and> snd (snd (handleKubeconfig ?C ?E ?c 0 (sampleWorld (map sampleSecret [''a'', ''b'']) [?c])))
      = sampleWorld (map sampleSecret [''a'', ''b'']) [?c]"
    using T0 [where w = "sampleWorld (map sampleSecret [''a'', ''b'']) [?c]"]
    by (simp add: sample_filter del: list.map; simp add: sampleCluster_def)
  from l sample_unforced due a b c show ?thesis by (intro conjI) simp_all
qed

subsection \<open>C3: Reconcile for an access object that is gone\<close>

text \<open>
  C3, amended. When \<open>Reconcile\<close> is invoked for an access object that no longer exists
  (Get reports not-found) and the List by the identity label succeeds: with exactly one
  match a Delete of that secret is issued and its result is the result of the invocation,
  the secret being gone from the store when the Delete succeeds; with any other number of
  matches, zero as well as more than one, the invocation returns the error
  \<open>unexpected numer of secrets found\<close> and deletes nothing. The guard of
  \<open>deleteKubeconfigSecret\<close> is \<open>len(secretList.Items) != 1\<close>.
\<close>

theorem Reconcile_deleted_cluster:
  assumes gone: "client_Get (getErr E) w (reqNamespace req, reqName req) = (None, err)"
      "IsNotFound err"
    and list: "listErr E = None"
    and items: "items = filter (MatchingLabels [(clusterCRNameLabel, reqName req)]) (secrets w)"
  shows "(length items = 1 \<longrightarrow>
            Reconcile C E req w =
              ((resultWithoutRequeue C, deleteErr E),
               (if deleteErr E = None
                then w\<lparr> secrets := filter (\<lambda>x. \<not> sameObject x (items ! 0)) (secrets w),
                         calls := calls w @ [CallDelete (items ! 0)] \<rparr>
                else w\<lparr> calls := calls w @ [CallDelete (items ! 0)] \<rparr>)))
       \<and> (length items \<noteq> 1 \<longrightarrow>
            Reconcile C E req w =
              ((resultWithoutRequeue C,
                Some (Failure (''unexpected numer of secrets found for cluster CR `''
                               @ reqName req @ ''`''))),
               w))"
proof (intro conjI impI)
  assume "length items = 1"
  then obtain s where s: "items = [s]" by (cases items) auto
  with items have "filter (MatchingLabels [(clusterCRNameLabel, reqName req)]) (secrets w) = [s]"
    by simp
  from deleteKubeconfigSecret_one [OF list this] Reconcile_gone [OF gone, of C] s
  show "Reconcile C E req w =
              ((resultWithoutRequeue C, deleteErr E),
               (if deleteErr E = None
                then w\<lparr> secrets := filter (\<lambda>x. \<not> sameObject x (items ! 0)) (secrets w),
                         calls := calls w @ [CallDelete (items ! 0)] \<rparr>
                else w\<lparr> calls := calls w @ [CallDelete (items ! 0)] \<rparr>))"
    by (cases "deleteErr E") (simp_all add: client_Delete_def)
next
  assume "length items \<noteq> 1"
  with items have "length (filter (MatchingLabels [(clusterCRNameLabel, reqName req)]) (secrets w)) \<noteq> 1"
    by simp
  from deleteKubeconfigSecret_not_one [OF list this] Reconcile_gone [OF gone, of C]
  show "Reconcile C E req w =
              ((resultWithoutRequeue C,
                Some (Failure (''unexpected numer of secrets found for cluster CR `''
                               @ reqName req @ ''`''))),
               w)" by simp
qed

text \<open>
  As stated, with zero matches succeeding, the claim fails: on a store with no secret and
  no access object, \<open>Reconcile\<close> returns the error.
\<close>

theorem Reconcile_zero_secrets_counterexample:
  "client_Get (getErr (sampleEnv 0)) (sampleWorld [] [])
     (reqNamespace sampleRequest, reqName sampleRequest)
     = (None, Some (NotFound ''gardenercluster not found''))
   \<and> length (filter (MatchingLabels [(clusterCRNameLabel, reqName sampleRequest)])
        (secrets (sampleWorld [] []))) = 0
   \<and> Reconcile (sampleController freshFetch) (sampleEnv 0) sampleRequest (sampleWorld [] [])
      = ((resultWithoutRequeue (sampleController freshFetch),
          Some (Failure ''unexpected numer of secrets found for cluster CR `cluster-1`'')),
         sampleWorld [] [])"
proof -
  have a: "length (filter (MatchingLabels [(clusterCRNameLabel, reqName sampleRequest)])
        (secrets (sampleWorld [] []))) = 0"
    by (simp add: sampleWorld_def)
  have b: "Reconcile (sampleController freshFetch) (sampleEnv 0) sampleRequest (sampleWorld [] [])
      = ((resultWithoutRequeue (sampleController freshFetch),
          Some (Failure ''unexpected numer of secrets found for cluster CR `cluster-1`'')),
         sampleWorld [] [])"
    by (simp add: Reconcile_def client_Get_def IsNotFound_def deleteKubeconfigSecret_def
        client_List_def sample_defs)
  from sample_Get_gone [of 0 "[]"] a b show ?thesis by (intro conjI)
qed

text \<open>
  The amended statement on a store with one matching secret, which is deleted, and on a
  store with two, which is left as it was.
\<close>

theorem Reconcile_deleted_cluster_witness:
  "client_Get (getErr (sampleEnv 0)) (sampleWorld (map sampleSecret [''a'']) [])
     (reqNamespace sampleRequest, reqName sampleRequest)
     = (None, Some (NotFound ''gardenercluster not found''))
   \<and> Reconcile (sampleController freshFetch) (sampleEnv 0) sampleRequest
        (sampleWorld (map sampleSecret [''a'']) [])
      = ((resultWithoutRequeue (sampleController freshFetch), None),
         \<lparr> secrets = [], clusters = [], calls = [CallDelete (sampleSecret ''a'')] \<rparr>)
   \<and> Reconcile (sampleController freshFetch) (sampleEnv 0) sampleRequest
        (sampleWorld (map sampleSecret [''a'', ''b'']) [])
      = ((resultWithoutRequeue (sampleController freshFetch),
          Some (Failure ''unexpected numer of secrets found for cluster CR `cluster-1`'')),
         sampleWorld (map sampleSecret [''a'', ''b'']) [])"
proof -
  let ?E = "sampleEnv 0" and ?C = "sampleController freshFetch"
  have nf: "IsNotFound (Some (NotFound ''gardenercluster not found''))"
    by (simp add: IsNotFound_def)
  have l: "listErr ?E = None" by (simp add: sampleEnv_def)
  have d: "deleteErr ?E = None" by (simp add: sampleEnv_def)
  have a: "Reconcile ?C ?E sampleRequest (sampleWorld (map sampleSecret [''a'']) [])
      = ((resultWithoutRequeue ?C, None),
         \<lparr> secrets = [], clusters = [], calls = [CallDelete (sampleSecret ''a'')] \<rparr>)"
    using Reconcile_deleted_cluster [where E = ?E and req = sampleRequest and C = ?C
        and w = "sampleWorld (map sampleSecret [''a'']) []", OF sample_Get_gone nf l refl] d
    by (simp add: sample_filter_cr del: list.map; simp add: sampleWorld_def sameObject_def)
  have b: "Reconcile ?C ?E sampleRequest (sampleWorld (map sampleSecret [''a'', ''b'']) [])
      = ((resultWithoutRequeue ?C,
          Some (Failure ''unexpected numer of secrets found for cluster CR `cluster-1`'')),
         sampleWorld (map sampleSecret [''a'', ''b'']) [])"
    using Reconcile_deleted_cluster [where E = ?E and req = sampleRequest and C = ?C
        and w = "sampleWorld (map sampleSecret [''a'', ''b'']) []", OF sample_Get_gone nf l refl]
    by (simp add: sample_filter_cr del: list.map; simp add: sampleRequest_def)
  from sample_Get_gone [of 0 "map sampleSecret [''a'']"] a b show ?thesis by (intro conjI)
qed

subsection \<open>C4: Forced rotation with an existing secret\<close>



subsection \<open>C5: Rotation neither forced nor due\<close>

text \<open>
  C5, amended. For every invocation where the access object exists, the secret lookup
  does not fail, the credential is fetched, rotation is not forced and
  \<open>secretNeedsToBeRotated\<close> is false: the outcome is \<open>ksZero\<close> without error, the
  world is as it was (no secret is created, updated or deleted and no status change is
  persisted on the access object), and the returned directive requeues after the full
  rotation period, \<open>RequeueAfter = rotationPeriod\<close>, not after the time that remains
  until the rotation threshold.
\<close>

theorem Reconcile_not_due:
  assumes exists: "client_Get (getErr E) w (reqNamespace req, reqName req) = (Some cluster, gerr)"
    and lookup: "getSecret E w (ShootName cluster) = (existingSecret, err)"
      "err = None \<or> IsNotFound err"
    and fetch: "Fetch C (ShootName cluster) = (kubeconfig, None)"
    and unforced: "\<not> secretRotationForced cluster"
    and notdue: "\<not> secretNeedsToBeRotated E cluster existingSecret (rotationPeriod C)"
  shows "handleKubeconfig C E cluster (startTime E) w = ((ksZero, None), cluster, w)
       \<and> Reconcile C E req w = ((\<lparr> Requeue = True, RequeueAfter = rotationPeriod C \<rparr>, None), w)"
proof -
  have h: "handleKubeconfig C E cluster (startTime E) w = ((ksZero, None), cluster, w)"
    by (rule handleKubeconfig_not_due [OF lookup fetch unforced notdue])
  from Reconcile_zero [OF exists h] have
    "Reconcile C E req w = ((\<lparr> Requeue = True, RequeueAfter = rotationPeriod C \<rparr>, None), w)"
    by (simp add: resultWithRequeue_def)
  with h show ?thesis by simp
qed

text \<open>
  As stated, with a requeue after the remaining time until the threshold, the claim
  fails: with a period of 100 minutes and a secret synced 10 minutes ago, 85 minutes
  remain until the threshold of 95 minutes and the directive requeues after 100.
\<close>

theorem Reconcile_requeue_counterexample:
  "\<not> secretRotationForced (sampleCluster None)
   \<and> \<not> secretNeedsToBeRotated (sampleEnv (10 * Minute)) (sampleCluster None)
         (Some (sampleSecret ''a'')) (rotationPeriod (sampleController freshFetch))
   \<and> RequeueAfter (fst (fst (Reconcile (sampleController freshFetch) (sampleEnv (10 * Minute))
        sampleRequest (sampleWorld [sampleSecret ''a''] [sampleCluster None])))) = 100 * Minute
   \<and> remainingUntilRotationThreshold (sampleEnv (10 * Minute)) 0
        (rotationPeriod (sampleController freshFetch)) = real_of_int (85 * Minute)
   \<and> real_of_int (RequeueAfter (fst (fst (Reconcile (sampleController freshFetch)
        (sampleEnv (10 * Minute)) sampleRequest
        (sampleWorld [sampleSecret ''a''] [sampleCluster None])))))
      \<noteq> remainingUntilRotationThreshold (sampleEnv (10 * Minute)) 0
           (rotationPeriod (sampleController freshFetch))"
proof -
  have nd: "\<not> secretNeedsToBeRotated (sampleEnv (10 * Minute)) (sampleCluster None)
         (Some (sampleSecret ''a'')) (rotationPeriod (sampleController freshFetch))"
    using sample_not_due [of "''a''"] by (simp add: sampleController_def)
  have h: "handleKubeconfig (sampleController freshFetch) (sampleEnv (10 * Minute))
             (sampleCluster None) (startTime (sampleEnv (10 * Minute)))
             (sampleWorld [sampleSecret ''a''] [sampleCluster None])
           = ((ksZero, None), sampleCluster None, sampleWorld [sampleSecret ''a''] [sampleCluster None])"
    using nd sample_unforced sample_getSecret_one [of "10 * Minute" "''a''" "[sampleCluster None]" None]
    by (simp add: handleKubeconfig_def sampleController_def freshFetch_def)
  have r: "RequeueAfter (fst (fst (Reconcile (sampleController freshFetch) (sampleEnv (10 * Minute))
        sampleRequest (sampleWorld [sampleSecret ''a''] [sampleCluster None])))) = 100 * Minute"
    using sample_Get [of "10 * Minute" "[sampleSecret ''a'']" None] h
    by (simp add: Reconcile_def resultWithRequeue_def sampleController_def hundredMinutes_def)
  have m: "remainingUntilRotationThreshold (sampleEnv (10 * Minute)) 0
        (rotationPeriod (sampleController freshFetch)) = real_of_int (85 * Minute)"
    by (simp add: remainingUntilRotationThreshold_def rotationPeriodRatio_def sampleEnv_def
        sampleController_def hundredMinutes_def Minute_def)
  have ne: "real_of_int (RequeueAfter (fst (fst (Reconcile (sampleController freshFetch)
        (sampleEnv (10 * Minute)) sampleRequest
        (sampleWorld [sampleSecret ''a''] [sampleCluster None])))))
      \<noteq> remainingUntilRotationThreshold (sampleEnv (10 * Minute)) 0
           (rotationPeriod (sampleController freshFetch))"
    unfolding r m by (simp add: Minute_def)
  from sample_unforced nd r m ne show ?thesis by (intro conjI)
qed

text \<open>
  The amended statement on the same input.
\<close>

theorem Reconcile_not_due_witness:
  "client_Get (getErr (sampleEnv (10 * Minute))) (sampleWorld [sampleSecret ''a''] [sampleCluster None])
     (reqNamespace sampleRequest, reqName sampleRequest) = (Some (sampleCluster None), None)
   \<and> \<not> secretRotationForced (sampleCluster None)
   \<and> \<not> secretNeedsToBeRotated (sampleEnv (10 * Minute)) (sampleCluster None)
         (Some (sampleSecret ''a'')) (rotationPeriod (sampleController freshFetch))
   \<and> Reconcile (sampleController freshFetch) (sampleEnv (10 * Minute)) sampleRequest
        (sampleWorld [sampleSecret ''a''] [sampleCluster None])
      = ((\<lparr> Requeue = True, RequeueAfter = hundredMinutes \<rparr>, None),
         sampleWorld [sampleSecret ''a''] [sampleCluster None])"
proof -
  have h2: "(None :: error option) = None \<or> IsNotFound None" by simp
  have h3: "Fetch (sampleController freshFetch) (ShootName (sampleCluster None))
       = (''fresh-kubeconfig'', None)"
    by (simp add: sampleController_def freshFetch_def)
  have nd: "\<not> secretNeedsToBeRotated (sampleEnv (10 * Minute)) (sampleCluster None)
         (Some (sampleSecret ''a'')) (rotationPeriod (sampleController freshFetch))"
    using sample_not_due [of "''a''"] by (simp add: sampleController_def)
  from Reconcile_not_due [OF sample_Get sample_getSecret_one h2 h3 sample_unforced nd]
  have "Reconcile (sampleController freshFetch) (sampleEnv (10 * Minute)) sampleRequest
        (sampleWorld [sampleSecret ''a''] [sampleCluster None])
      = ((\<lparr> Requeue = True, RequeueAfter = hundredMinutes \<rparr>, None),
         sampleWorld [sampleSecret ''a''] [sampleCluster None])"
    by (simp add: sampleController_def)
  with sample_Get [of "10 * Minute" "[sampleSecret ''a'']" None] sample_unforced nd
  show ?thesis by (intro conjI)
qed

subsection \<open>C6: No seed for the region\<close>

text \<open>
  C6. For every Runtime with \<open>EnforceSeedLocation\<close> set to true for which the seed
  lookup succeeds and reports no available seed for the region, \<open>sFnCreateShoot\<close>
  stops: the directive is \<open>Stop\<close> (no requeue), the condition with reason
  \<open>SeedNotFound\<close> and status False is set on the Runtime, the stop counter is
  incremented exactly once, and the backend's Create is not called.
\<close>

theorem sFnCreateShoot_seed_not_found:
  assumes enforce: "EnforceSeedLocation (inst s) = Some True"
    and seed: "seedForRegionAvailable K (ProviderType (inst s)) (Region (inst s))
               = (False, regionsWithSeeds, None)"
    and msg: "msg = ''Cannot find available seed for the region '' @ Region (inst s)
                    @ ''. The followig regions have seeds ready: ''
                    @ fmtStrings regionsWithSeeds @ ''.''"
  shows "sFnCreateShoot m K s =
           (Stop,
            s\<lparr> inst := UpdateStatePending ConditionTypeRuntimeProvisioned
                         ConditionReasonSeedNotFound ConditionFalse msg (inst s),
               stopCounter := stopCounter s + 1 \<rparr>)
       \<and> stopCounter (snd (sFnCreateShoot m K s)) = stopCounter s + 1
       \<and> createCalls (snd (sFnCreateShoot m K s)) = createCalls s
       \<and> (\<exists>c \<in> set (Conditions (inst (snd (sFnCreateShoot m K s)))).
             condType c = ConditionTypeRuntimeProvisioned
           \<and> condReason c = ConditionReasonSeedNotFound
           \<and> condStatus c = ConditionFalse)"
proof -
  let ?c = "\<lparr> condType = ConditionTypeRuntimeProvisioned, condStatus = ConditionFalse,
             condReason = ConditionReasonSeedNotFound, condMessage = msg \<rparr>"
  have r: "sFnCreateShoot m K s =
           (Stop,
            s\<lparr> inst := UpdateStatePending ConditionTypeRuntimeProvisioned
                         ConditionReasonSeedNotFound ConditionFalse msg (inst s),
               stopCounter := stopCounter s + 1 \<rparr>)"
    using enforce seed
    by (simp add: sFnCreateShoot_def msg updateStatePendingWithErrorAndStop_def
        IncRuntimeFSMStopCounter_def)
  have "?c \<in> set (Conditions (UpdateStatePending ConditionTypeRuntimeProvisioned
                         ConditionReasonSeedNotFound ConditionFalse msg (inst s)))"
    by (simp add: UpdateStatePending_def SetStatusCondition_mem)
  then have "\<exists>c \<in> set (Conditions (UpdateStatePending ConditionTypeRuntimeProvisioned
                         ConditionReasonSeedNotFound ConditionFalse msg (inst s))).
             condType c = ConditionTypeRuntimeProvisioned
           \<and> condReason c = ConditionReasonSeedNotFound
           \<and> condStatus c = ConditionFalse"
    by (intro bexI [of _ ?c]) simp_all
  with r show ?thesis by simp
qed

text \<open>
  The theorem on the scenario of the spec: region \<open>eu-west-1\<close>, seeds ready in
  \<open>eu-central-1\<close> only.
\<close>

theorem sFnCreateShoot_seed_not_found_witness:
  "EnforceSeedLocation (inst sampleSystemState) = Some True
   \<and> seedForRegionAvailable sampleCollaborators (ProviderType (inst sampleSystemState))
        (Region (inst sampleSystemState)) = (False, [''eu-central-1''], None)
   \<and> fst (sFnCreateShoot sampleFsm sampleCollaborators sampleSystemState) = Stop
   \<and> stopCounter (snd (sFnCreateShoot sampleFsm sampleCollaborators sampleSystemState)) = 1
   \<and> createCalls (snd (sFnCreateShoot sampleFsm sampleCollaborators sampleSystemState)) = []
   \<and> Conditions (inst (snd (sFnCreateShoot sampleFsm sampleCollaborators sampleSystemState)))
      = [\<lparr> condType = ConditionTypeRuntimeProvisioned, condStatus = ConditionFalse,
           condReason = ConditionReasonSeedNotFound,
           condMessage = ''Cannot find available seed for the region eu-west-1. The followig regions have seeds ready: [eu-central-1].'' \<rparr>]"
proof -
  have h1: "EnforceSeedLocation (inst sampleSystemState) = Some True"
    by (simp add: sampleSystemState_def sampleRuntime_def)
  have h2: "seedForRegionAvailable sampleCollaborators (ProviderType (inst sampleSystemState))
        (Region (inst sampleSystemState)) = (False, [''eu-central-1''], None)"
    by (simp add: sampleCollaborators_def)
  from sFnCreateShoot_seed_not_found [OF h1 h2 refl, of sampleFsm]
  have r: "sFnCreateShoot sampleFsm sampleCollaborators sampleSystemState =
           (Stop,
            sampleSystemState\<lparr> inst := UpdateStatePending ConditionTypeRuntimeProvisioned
                         ConditionReasonSeedNotFound ConditionFalse
                         (''Cannot find available seed for the region '' @ Region (inst sampleSystemState)
                    @ ''. The followig regions have seeds ready: ''
                    @ fmtStrings [''eu-central-1''] @ ''.'') (inst sampleSystemState),
               stopCounter := stopCounter sampleSystemState + 1 \<rparr>)"
    by (rule conjunct1)
  have a: "fst (sFnCreateShoot sampleFsm sampleCollaborators sampleSystemState) = Stop"
    by (simp add: r)
  have b: "stopCounter (snd (sFnCreateShoot sampleFsm sampleCollaborators sampleSystemState)) = 1"
    by (subst r) (simp add: sampleSystemState_def)
  have c: "createCalls (snd (sFnCreateShoot sampleFsm sampleCollaborators sampleSystemState)) = []"
    by (subst r) (simp add: sampleSystemState_def)
  have d: "Conditions (inst (snd (sFnCreateShoot sampleFsm sampleCollaborators sampleSystemState)))
      = [\<lparr> condType = ConditionTypeRuntimeProvisioned, condStatus = ConditionFalse,
           condReason = ConditionReasonSeedNotFound,
           condMessage = ''Cannot find available seed for the region eu-west-1. The followig regions have seeds ready: [eu-central-1].'' \<rparr>]"
    by (subst r) (simp add: sampleSystemState_def sampleRuntime_def UpdateStatePending_def fmtStrings_def)
  from h1 h2 a b c d show ?thesis by (intro conjI)
qed

subsection \<open>C7: The upsert of the audit-log extension\<close>

text \<open>
  C7. For every Shoot and every audit-log data, when the configuration built from the
  data encodes to \<open>raw\<close>, \<open>oSetExtension\<close> succeeds and changes the extension list
  only, and it upserts by the type key. If no entry of type \<open>shoot-auditlog-service\<close>
  is in the list, one entry is appended: the list grows by one and every old entry
  stays where it was. If there is one, the first such entry is replaced at its index:
  the length is unchanged and every entry at another index is unchanged. In both cases
  the new entry has the audit-log type and its provider configuration is the encoding
  \<open>raw\<close>.
\<close>

theorem oSetExtension_upsert:
  assumes enc: "jsonEncode (auditlogConfig d) = Inr raw"
  shows "\<exists>exts'. oSetExtension jsonEncode d s = Inr (s\<lparr> Spec := (Spec s)\<lparr> Extensions := exts' \<rparr> \<rparr>)
     \<and> Type (auditlogExtension raw) = auditlogExtensionType
     \<and> ProviderConfig (auditlogExtension raw) = Some \<lparr> Raw = raw \<rparr>
     \<and> (if \<forall>e \<in> set (Extensions (Spec s)). Type e \<noteq> auditlogExtensionType
        then exts' = Extensions (Spec s) @ [auditlogExtension raw]
           \<and> length exts' = length (Extensions (Spec s)) + 1
           \<and> (\<forall>j < length (Extensions (Spec s)). exts' ! j = Extensions (Spec s) ! j)
        else \<exists>i < length (Extensions (Spec s)).
               Type (Extensions (Spec s) ! i) = auditlogExtensionType
             \<and> (\<forall>j < i. Type (Extensions (Spec s) ! j) \<noteq> auditlogExtensionType)
             \<and> exts' = (Extensions (Spec s))[i := auditlogExtension raw]
             \<and> exts' ! i = auditlogExtension raw
             \<and> length exts' = length (Extensions (Spec s))
             \<and> (\<forall>j < length (Extensions (Spec s)). j \<noteq> i \<longrightarrow> exts' ! j = Extensions (Spec s) ! j))"
proof (cases "\<forall>e \<in> set (Extensions (Spec s)). Type e \<noteq> auditlogExtensionType")
  case True
  from oSetExtension_absent [of jsonEncode d raw s, OF enc True] True show ?thesis
    by (intro exI [of _ "Extensions (Spec s) @ [auditlogExtension raw]"])
       (simp add: setExtensions_def auditlogExtension_def nth_append)
next
  case False
  then have "\<exists>e \<in> set (Extensions (Spec s)). Type e = auditlogExtensionType" by blast
  from IndexFunc_first [OF this] obtain i where i:
    "i < length (Extensions (Spec s))"
    "Type (Extensions (Spec s) ! i) = auditlogExtensionType"
    "\<forall>j < i. Type (Extensions (Spec s) ! j) \<noteq> auditlogExtensionType" by blast
  have "\<exists>k < length (Extensions (Spec s)).
               Type (Extensions (Spec s) ! k) = auditlogExtensionType
             \<and> (\<forall>j < k. Type (Extensions (Spec s) ! j) \<noteq> auditlogExtensionType)
             \<and> (Extensions (Spec s))[i := auditlogExtension raw] = (Extensions (Spec s))[k := auditlogExtension raw]
             \<and> (Extensions (Spec s))[i := auditlogExtension raw] ! k = auditlogExtension raw
             \<and> length ((Extensions (Spec s))[i := auditlogExtension raw]) = length (Extensions (Spec s))
             \<and> (\<forall>j < length (Extensions (Spec s)). j \<noteq> k \<longrightarrow> (Extensions (Spec s))[i := auditlogExtension raw] ! j = Extensions (Spec s) ! j)"
    using i by (intro exI [of _ i]) simp
  with oSetExtension_present [of jsonEncode d raw i s, OF enc i] False show ?thesis
    by (intro exI [of _ "(Extensions (Spec s))[i := auditlogExtension raw]"])
       (simp add: setExtensions_def auditlogExtension_def)
qed

theorem oSetExtension_upsert_witness:
  "sampleEncode (auditlogConfig sampleData) = Inr ''t1@https://audit''
   \<and> oSetExtension sampleEncode sampleData (sampleShoot [dnsExtension])
       = Inr (sampleShoot [dnsExtension, auditlogExtension ''t1@https://audit''])
   \<and> oSetExtension sampleEncode sampleData (sampleShoot [staleAuditExtension, dnsExtension])
       = Inr (sampleShoot [auditlogExtension ''t1@https://audit'', dnsExtension])"
proof -
  have h: "sampleEncode (auditlogConfig sampleData) = Inr ''t1@https://audit''"
    by (simp add: sampleEncode_def auditlogConfig_def sampleData_def)
  have a: "oSetExtension sampleEncode sampleData (sampleShoot [dnsExtension])
       = Inr (sampleShoot [dnsExtension, auditlogExtension ''t1@https://audit''])"
    using oSetExtension_upsert [of sampleEncode sampleData "''t1@https://audit''" "sampleShoot [dnsExtension]", OF h]
    by (auto simp: sampleShoot_def dnsExtension_def auditlogExtensionType_def)
  have b: "oSetExtension sampleEncode sampleData (sampleShoot [staleAuditExtension, dnsExtension])
       = Inr (sampleShoot [auditlogExtension ''t1@https://audit'', dnsExtension])"
    using oSetExtension_upsert [of sampleEncode sampleData "''t1@https://audit''" "sampleShoot [staleAuditExtension, dnsExtension]", OF h]
    by (auto simp: sampleShoot_def dnsExtension_def staleAuditExtension_def auditlogExtensionType_def less_Suc_eq)
  from h a b show ?thesis by simp
qed

subsection \<open>C8: Idempotence of the upsert\<close>

text \<open>
  C8. The extension upsert is idempotent: for every Shoot and fixed audit-log data, if
  \<open>oSetExtension\<close> turns the Shoot \<open>s\<close> into \<open>s'\<close>, then applied to \<open>s'\<close> it
  returns \<open>s'\<close> again, with no further change to the extension list or to any other
  field.
\<close>

theorem oSetExtension_idempotent:
  assumes first: "oSetExtension jsonEncode d s = Inr s'"
  shows "oSetExtension jsonEncode d s' = Inr s'"
proof -
  from first obtain raw where enc: "jsonEncode (auditlogConfig d) = Inr raw"
    by (cases "jsonEncode (auditlogConfig d)") (auto simp: oSetExtension_def)
  let ?exts = "Extensions (Spec s)" and ?ext = "auditlogExtension raw"
  show ?thesis
  proof (cases "\<forall>e \<in> set ?exts. Type e \<noteq> auditlogExtensionType")
    case True
    from oSetExtension_absent [of jsonEncode d raw s, OF enc True] first
    have s': "s' = setExtensions (?exts @ [?ext]) s" by simp
    have "oSetExtension jsonEncode d s' =
          Inr (setExtensions ((Extensions (Spec s'))[length ?exts := ?ext]) s')"
      using True by (intro oSetExtension_present [of jsonEncode d raw _ s', OF enc]) (auto simp: s' nth_append)
    then show ?thesis by (simp add: s')
  next
    case False
    then have "\<exists>e \<in> set ?exts. Type e = auditlogExtensionType" by blast
    from IndexFunc_first [OF this] obtain i where i:
      "i < length ?exts" "Type (?exts ! i) = auditlogExtensionType"
      "\<forall>j < i. Type (?exts ! j) \<noteq> auditlogExtensionType" by blast
    from oSetExtension_present [of jsonEncode d raw i s, OF enc i] first
    have s': "s' = setExtensions (?exts[i := ?ext]) s" by simp
    have "oSetExtension jsonEncode d s' =
          Inr (setExtensions ((Extensions (Spec s'))[i := ?ext]) s')"
      using i by (intro oSetExtension_present [of jsonEncode d raw _ s', OF enc]) (auto simp: s')
    then show ?thesis by (simp add: s')
  qed
qed

theorem oSetExtension_idempotent_witness:
  "oSetExtension sampleEncode sampleData (sampleShoot [staleAuditExtension, dnsExtension])
       = Inr (sampleShoot [auditlogExtension ''t1@https://audit'', dnsExtension])
   \<and> oSetExtension sampleEncode sampleData (sampleShoot [auditlogExtension ''t1@https://audit'', dnsExtension])
       = Inr (sampleShoot [auditlogExtension ''t1@https://audit'', dnsExtension])"
proof -
  have h: "oSetExtension sampleEncode sampleData (sampleShoot [staleAuditExtension, dnsExtension])
       = Inr (sampleShoot [auditlogExtension ''t1@https://audit'', dnsExtension])"
    by (simp add: oSetExtension_def sampleEncode_def auditlogConfig_def sampleData_def
        sampleShoot_def staleAuditExtension_def dnsExtension_def IndexFunc_def
        auditlogExtensionType_def setExtensions_def)
  from h oSetExtension_idempotent [OF h] show ?thesis by (rule conjI)
qed

subsection \<open>C9: The credential is fetched first\<close>

text \<open>
  C9. For every invocation of \<open>handleKubeconfig\<close> on an existing access object whose
  secret lookup does not fail (a secret is found, or none is), the credential is fetched
  before the forced-rotation and the rotation-due decisions: if the fetch fails, the
  invocation returns \<open>ksZero\<close> with the error of the fetch, the condition with reason
  \<open>FailedToGetKubeconfig\<close> and status False is set on the access object, and the world
  is as it was. Nothing is assumed of the forced-rotation annotation or of the age of the
  secret, so this holds as well in the runs where rotation is neither forced nor due and
  no secret would have been written.
\<close>

theorem handleKubeconfig_fetch_first:
  assumes lookup: "getSecret E w (ShootName cluster) = (existingSecret, err)"
      "err = None \<or> IsNotFound err"
    and fetch: "Fetch C (ShootName cluster) = (kubeconfig, Some e)"
  shows "handleKubeconfig C E cluster t w =
           ((ksZero, Some e),
            UpdateConditionForErrorState ConditionTypeKubeconfigManagement
              ConditionReasonFailedToGetKubeconfig (Some e) cluster,
            w)
       \<and> (\<exists>c \<in> set (StatusConditions (fst (snd (handleKubeconfig C E cluster t w)))).
             condType c = ConditionTypeKubeconfigManagement
           \<and> condReason c = ConditionReasonFailedToGetKubeconfig
           \<and> condStatus c = ConditionFalse
           \<and> condMessage c = errorString e)"
proof -
  let ?c = "\<lparr> condType = ConditionTypeKubeconfigManagement, condStatus = ConditionFalse,
             condReason = ConditionReasonFailedToGetKubeconfig, condMessage = errorString e \<rparr>"
  have r: "handleKubeconfig C E cluster t w =
           ((ksZero, Some e),
            UpdateConditionForErrorState ConditionTypeKubeconfigManagement
              ConditionReasonFailedToGetKubeconfig (Some e) cluster,
            w)"
    by (rule handleKubeconfig_fetch_failed [OF lookup fetch])
  have "?c \<in> set (StatusConditions (UpdateConditionForErrorState ConditionTypeKubeconfigManagement
              ConditionReasonFailedToGetKubeconfig (Some e) cluster))"
    by (simp add: UpdateConditionForErrorState_def SetStatusCondition_mem)
  then have "\<exists>c \<in> set (StatusConditions (UpdateConditionForErrorState ConditionTypeKubeconfigManagement
              ConditionReasonFailedToGetKubeconfig (Some e) cluster)).
             condType c = ConditionTypeKubeconfigManagement
           \<and> condReason c = ConditionReasonFailedToGetKubeconfig
           \<and> condStatus c = ConditionFalse
           \<and> condMessage c = errorString e"
    by (intro bexI [of _ ?c]) simp_all
  with r show ?thesis by simp
qed

text \<open>
  The theorem on a run where rotation is neither forced nor due (the secret was synced
  10 minutes ago, the period is 100 minutes) and the fetch fails.
\<close>

theorem handleKubeconfig_fetch_first_witness:
  "getSecret (sampleEnv (10 * Minute)) (sampleWorld [sampleSecret ''a''] [sampleCluster None])
     (ShootName (sampleCluster None)) = (Some (sampleSecret ''a''), None)
   \<and> Fetch (sampleController failedFetch) (ShootName (sampleCluster None))
       = ([], Some (Failure ''gardener unavailable''))
   \<and> \<not> secretRotationForced (sampleCluster None)
   \<and> \<not> secretNeedsToBeRotated (sampleEnv (10 * Minute)) (sampleCluster None)
         (Some (sampleSecret ''a'')) (rotationPeriod (sampleController failedFetch))
   \<and> handleKubeconfig (sampleController failedFetch) (sampleEnv (10 * Minute)) (sampleCluster None) 0
        (sampleWorld [sampleSecret ''a''] [sampleCluster None])
      = ((ksZero, Some (Failure ''gardener unavailable'')),
         UpdateConditionForErrorState ConditionTypeKubeconfigManagement
           ConditionReasonFailedToGetKubeconfig (Some (Failure ''gardener unavailable''))
           (sampleCluster None),
         sampleWorld [sampleSecret ''a''] [sampleCluster None])
   \<and> StatusConditions (UpdateConditionForErrorState ConditionTypeKubeconfigManagement
           ConditionReasonFailedToGetKubeconfig (Some (Failure ''gardener unavailable''))
           (sampleCluster None))
      = [\<lparr> condType = ConditionTypeKubeconfigManagement, condStatus = ConditionFalse,
           condReason = ConditionReasonFailedToGetKubeconfig,
           condMessage = ''gardener unavailable'' \<rparr>]"
proof -
  have h1: "getSecret (sampleEnv (10 * Minute)) (sampleWorld [sampleSecret ''a''] [sampleCluster None])
     (ShootName (sampleCluster None)) = (Some (sampleSecret ''a''), None)"
    by (rule sample_getSecret_one)
  have h2: "(None :: error option) = None \<or> IsNotFound None" by simp
  have h3: "Fetch (sampleController failedFetch) (ShootName (sampleCluster None))
       = ([], Some (Failure ''gardener unavailable''))"
    by (simp add: sampleController_def failedFetch_def)
  have nd: "\<not> secretNeedsToBeRotated (sampleEnv (10 * Minute)) (sampleCluster None)
         (Some (sampleSecret ''a'')) (rotationPeriod (sampleController failedFetch))"
    using sample_not_due [of "''a''"] by (simp add: sampleController_def)
  have c: "StatusConditions (UpdateConditionForErrorState ConditionTypeKubeconfigManagement
           ConditionReasonFailedToGetKubeconfig (Some (Failure ''gardener unavailable''))
           (sampleCluster None))
      = [\<lparr> condType = ConditionTypeKubeconfigManagement, condStatus = ConditionFalse,
           condReason = ConditionReasonFailedToGetKubeconfig,
           condMessage = ''gardener unavailable'' \<rparr>]"
    by (simp add: UpdateConditionForErrorState_def sampleCluster_def)
  from handleKubeconfig_fetch_first [OF h1 h2 h3, of 0]
  have r: "handleKubeconfig (sampleController failedFetch) (sampleEnv (10 * Minute)) (sampleCluster None) 0
        (sampleWorld [sampleSecret ''a''] [sampleCluster None])
      = ((ksZero, Some (Failure ''gardener unavailable'')),
         UpdateConditionForErrorState ConditionTypeKubeconfigManagement
           ConditionReasonFailedToGetKubeconfig (Some (Failure ''gardener unavailable''))
           (sampleCluster None),
         sampleWorld [sampleSecret ''a''] [sampleCluster None])"
    by (rule conjunct1)
  from h1 h3 sample_unforced nd r c show ?thesis by (intro conjI)
qed

subsection \<open>C10: Forced rotation without a secret\<close>



end
